theory Spec2Isabelle
  imports Main
begin

section \<open>JavaScript values\<close>

text \<open>
  The engine is dynamically typed: row fields, literals and backend results are JavaScript
  values. The model keeps \<^verbatim>\<open>undefined\<close>, \<^verbatim>\<open>null\<close>, booleans, numbers and strings.
  Numbers are the integers together with \<open>NaN\<close> (a sum over an absent field is
  \<open>NaN\<close>); fractions, infinities and the rounding of doubles beyond \<open>2^53\<close> are outside
  the model, and so are dates. Strings are lists of characters.
\<close>

datatype jsval = JUndefined | JNull | JBool bool | JNum int | JNaN | JStr string

subsection \<open>Strings and numbers\<close>

text \<open>An ASCII lower-case letter loses 32 from its code, which is its bit 5.\<close>

definition upper_char :: "char \<Rightarrow> char" where
  "upper_char c =
     (if 97 \<le> (of_char c :: nat) \<and> (of_char c :: nat) \<le> 122
      then (case c of Char b0 b1 b2 b3 b4 b5 b6 b7 \<Rightarrow> Char b0 b1 b2 b3 b4 False b6 b7)
      else c)"

text \<open>\<^verbatim>\<open>String.prototype.toUpperCase\<close> on ASCII text.\<close>

definition toUpperCase :: "string \<Rightarrow> string" where
  "toUpperCase s = map upper_char s"

text \<open>White space as \<^verbatim>\<open>parseInt\<close> and \<^verbatim>\<open>\s\<close> see it, within ASCII:
  tab, line feed, vertical tab, form feed, carriage return and space.\<close>

definition is_space :: "char \<Rightarrow> bool" where
  "is_space c = (let n = (of_char c :: nat) in (9 \<le> n \<and> n \<le> 13) \<or> n = 32)"

definition digit_char :: "nat \<Rightarrow> char" where
  "digit_char d = ''0123456789'' ! d"

fun show_nat :: "nat \<Rightarrow> string" where
  "show_nat n = (if n < 10 then [digit_char n] else show_nat (n div 10) @ [digit_char (n mod 10)])"

declare show_nat.simps [simp del]

text \<open>\<^verbatim>\<open>Number.prototype.toString\<close> on an integer.\<close>

definition show_int :: "int \<Rightarrow> string" where
  "show_int i = (if i < 0 then CHR ''-'' # show_nat (nat (- i)) else show_nat (nat i))"

text \<open>The value of a digit or letter, and of a digit in a radix of at most 16, if it is
  one.\<close>

definition digit_val :: "nat \<Rightarrow> char \<Rightarrow> nat option" where
  "digit_val radix c =
     (let n = (of_char c :: nat);
          v = (if 48 \<le> n \<and> n \<le> 57 then n - 48
               else if 97 \<le> n \<and> n \<le> 102 then n - 87
               else if 65 \<le> n \<and> n \<le> 70 then n - 55
               else 16)
      in if v < radix then Some v else None)"

text \<open>The longest prefix of digits, read in the radix; the second component tells whether
  any digit was read.\<close>

fun read_digits :: "nat \<Rightarrow> nat \<Rightarrow> bool \<Rightarrow> string \<Rightarrow> nat \<times> bool" where
  "read_digits radix acc seen [] = (acc, seen)"
| "read_digits radix acc seen (c # cs) =
     (case digit_val radix c of
        None \<Rightarrow> (acc, seen)
      | Some d \<Rightarrow> read_digits radix (acc * radix + d) True cs)"

definition read_unsigned :: "string \<Rightarrow> (nat \<times> bool)" where
  "read_unsigned s =
     (case s of
        c # x # rest \<Rightarrow>
          if c = CHR ''0'' \<and> (x = CHR ''x'' \<or> x = CHR ''X'') then read_digits 16 0 False rest
          else read_digits 10 0 False s
      | _ \<Rightarrow> read_digits 10 0 False s)"

text \<open>\<^verbatim>\<open>parseInt\<close> of a string with no radix argument: leading white space is
  skipped, a sign is read, a \<^verbatim>\<open>0x\<close> prefix selects radix 16, the longest prefix of
  digits is the value, and no digit at all is \<open>NaN\<close>.\<close>

definition parseInt_string :: "string \<Rightarrow> jsval" where
  "parseInt_string s =
     (let t = dropWhile is_space s;
          (neg, u) = (case t of
                        c # rest \<Rightarrow> if c = CHR ''-'' then (True, rest)
                                   else if c = CHR ''+'' then (False, rest) else (False, t)
                      | [] \<Rightarrow> (False, t));
          (n, seen) = read_unsigned u
      in if \<not> seen then JNaN else JNum (if neg then - int n else int n))"

text \<open>\<^verbatim>\<open>ToString\<close> on a value.\<close>

fun toString :: "jsval \<Rightarrow> string" where
  "toString JUndefined = ''undefined''"
| "toString JNull = ''null''"
| "toString (JBool b) = (if b then ''true'' else ''false'')"
| "toString (JNum i) = show_int i"
| "toString JNaN = ''NaN''"
| "toString (JStr s) = s"

text \<open>\<^verbatim>\<open>parseInt(v)\<close>: the argument is converted to a string first.\<close>

definition parseInt :: "jsval \<Rightarrow> jsval" where
  "parseInt v = parseInt_string (toString v)"

text \<open>\<^verbatim>\<open>xs[i]\<close> on an array: \<^verbatim>\<open>undefined\<close> out of range.\<close>

definition at_index :: "jsval list \<Rightarrow> nat \<Rightarrow> jsval" where
  "at_index xs i = (if i < length xs then xs ! i else JUndefined)"

section \<open>Operators of the language\<close>

text \<open>\<^verbatim>\<open>ToBoolean\<close>: the values that count as false are \<^verbatim>\<open>undefined\<close>,
  \<^verbatim>\<open>null\<close>, \<^verbatim>\<open>false\<close>, \<open>0\<close>, \<open>NaN\<close> and the empty string.\<close>

fun truthy :: "jsval \<Rightarrow> bool" where
  "truthy JUndefined = False"
| "truthy JNull = False"
| "truthy (JBool b) = b"
| "truthy (JNum i) = (i \<noteq> 0)"
| "truthy JNaN = False"
| "truthy (JStr s) = (s \<noteq> [])"

text \<open>The radix that the second character of a \<^verbatim>\<open>0x\<close>, \<^verbatim>\<open>0o\<close> or \<^verbatim>\<open>0b\<close> literal
  selects.\<close>

definition prefix_radix :: "string \<Rightarrow> nat option" where
  "prefix_radix u =
     (case u of
        c # x # rest \<Rightarrow>
          if c \<noteq> CHR ''0'' then None
          else if x = CHR ''x'' \<or> x = CHR ''X'' then Some 16
          else if x = CHR ''o'' \<or> x = CHR ''O'' then Some 8
          else if x = CHR ''b'' \<or> x = CHR ''B'' then Some 2
          else None
      | _ \<Rightarrow> None)"

text \<open>
  \<^verbatim>\<open>ToNumber\<close> on a string: white space around is dropped, the empty string is
  \<open>0\<close>, an optionally signed run of decimal digits or an unsigned hexadecimal, octal or
  binary literal is its value, and anything else is \<open>NaN\<close>. A literal with a fraction or
  an exponent, or \<^verbatim>\<open>Infinity\<close>, has no value in the integers and is outside the model.
\<close>

definition string_to_number :: "string \<Rightarrow> jsval" where
  "string_to_number s =
     (let t = rev (dropWhile is_space (rev (dropWhile is_space s)));
          (neg, signed, u) =
             (case t of
                c # rest \<Rightarrow> if c = CHR ''-'' then (True, True, rest)
                           else if c = CHR ''+'' then (False, True, rest) else (False, False, t)
              | [] \<Rightarrow> (False, False, t))
      in if t = [] then JNum 0
         else if u \<noteq> [] \<and> list_all (\<lambda>c. digit_val 10 c \<noteq> None) u
           then JNum (if neg then - int (fst (read_digits 10 0 False u))
                      else int (fst (read_digits 10 0 False u)))
         else (case prefix_radix u of
                 Some radix \<Rightarrow>
                   if \<not> signed \<and> drop 2 u \<noteq> []
                      \<and> list_all (\<lambda>c. digit_val radix c \<noteq> None) (drop 2 u)
                   then JNum (int (fst (read_digits radix 0 False (drop 2 u))))
                   else JNaN
               | None \<Rightarrow> JNaN))"

text \<open>\<^verbatim>\<open>ToNumber\<close> on a value; the result is \<open>JNum\<close> or \<open>JNaN\<close>.\<close>

fun toNumber :: "jsval \<Rightarrow> jsval" where
  "toNumber JUndefined = JNaN"
| "toNumber JNull = JNum 0"
| "toNumber (JBool b) = JNum (if b then 1 else 0)"
| "toNumber (JNum i) = JNum i"
| "toNumber JNaN = JNaN"
| "toNumber (JStr s) = string_to_number s"

text \<open>Strict equality \<^verbatim>\<open>===\<close>: same type and same value; \<open>NaN\<close> equals nothing.\<close>

fun strict_eq :: "jsval \<Rightarrow> jsval \<Rightarrow> bool" where
  "strict_eq JNaN b = False"
| "strict_eq a JNaN = False"
| "strict_eq a b = (a = b)"

text \<open>Loose equality \<^verbatim>\<open>==\<close>: \<^verbatim>\<open>null\<close> and \<^verbatim>\<open>undefined\<close> equal each other
  and nothing else; a boolean is compared as its number, and a string is compared to a
  number as its number.\<close>

fun loose_eq :: "jsval \<Rightarrow> jsval \<Rightarrow> bool" where
  "loose_eq JUndefined b = (b = JUndefined \<or> b = JNull)"
| "loose_eq JNull b = (b = JUndefined \<or> b = JNull)"
| "loose_eq a JUndefined = False"
| "loose_eq a JNull = False"
| "loose_eq (JStr s) (JStr t) = (s = t)"
| "loose_eq a b = strict_eq (toNumber a) (toNumber b)"

text \<open>The order of strings: code unit by code unit, a proper prefix first.\<close>

fun string_less :: "string \<Rightarrow> string \<Rightarrow> bool" where
  "string_less [] [] = False"
| "string_less [] (d # ds) = True"
| "string_less (c # cs) [] = False"
| "string_less (c # cs) (d # ds) =
     (if (of_char c :: nat) < of_char d then True
      else if (of_char d :: nat) < of_char c then False
      else string_less cs ds)"

text \<open>The relational comparison behind \<^verbatim>\<open><\<close>: \<open>None\<close> is the language's
  \<^verbatim>\<open>undefined\<close> answer, given when an operand is \<open>NaN\<close> as a number.\<close>

fun less_than :: "jsval \<Rightarrow> jsval \<Rightarrow> bool option" where
  "less_than (JStr s) (JStr t) = Some (string_less s t)"
| "less_than a b =
     (case (toNumber a, toNumber b) of
        (JNum x, JNum y) \<Rightarrow> Some (x < y)
      | _ \<Rightarrow> None)"

definition js_lt :: "jsval \<Rightarrow> jsval \<Rightarrow> bool" where
  "js_lt a b = (less_than a b = Some True)"

definition js_gt :: "jsval \<Rightarrow> jsval \<Rightarrow> bool" where
  "js_gt a b = (less_than b a = Some True)"

definition js_le :: "jsval \<Rightarrow> jsval \<Rightarrow> bool" where
  "js_le a b = (less_than b a = Some False)"

definition js_ge :: "jsval \<Rightarrow> jsval \<Rightarrow> bool" where
  "js_ge a b = (less_than a b = Some False)"

section \<open>Rows\<close>

type_synonym row = "(string \<times> jsval) list"

text \<open>
  A row is an object: its fields in enumeration order, each key once. (Keys that read as
  array indices, which the runtime enumerates first, are not column names.)
  \<open>row_get\<close> is \<^verbatim>\<open>row[k]\<close>, \<^verbatim>\<open>undefined\<close> for an absent field;
  \<open>row_set\<close> is \<^verbatim>\<open>row[k] = v\<close>: an existing field keeps its place, a new one goes last.
\<close>

definition row_get :: "row \<Rightarrow> string \<Rightarrow> jsval" where
  "row_get r k = (case map_of r k of Some v \<Rightarrow> v | None \<Rightarrow> JUndefined)"

fun row_set :: "row \<Rightarrow> string \<Rightarrow> jsval \<Rightarrow> row" where
  "row_set [] k v = [(k, v)]"
| "row_set ((k', v') # r) k v = (if k' = k then (k, v) # r else (k', v') # row_set r k v)"

section \<open>Errors, promises and the backend\<close>

text \<open>
  The values the engine throws or rejects with, named as the specification's taxonomy:
  \<^item> \<open>UnsupportedType T\<close> is the thrown string \<^verbatim>\<open>T + ' not yet supported'\<close>;
  \<^item> \<open>OrderByUnsupported\<close> is
    \<^verbatim>\<open>Error("ORDER BY only supported for columns, aggregates are not supported")\<close>;
  \<^item> \<open>InvalidLimit\<close> is
    \<^verbatim>\<open>Error("Invalid LIMIT expression: Use LIMIT [offset,] number")\<close>;
  \<^item> \<open>InvalidStatement k\<close> is the string \<^verbatim>\<open>"Invalid SQL syntax: " + k\<close>;
  \<^item> \<open>TypeError\<close> is the runtime's error for calling a method of a value that has none;
  \<^item> \<open>External e\<close> is a value that comes from outside the engine: a backend's rejection
    or the parser's exception;
  \<^item> \<open>Unmodelled\<close> is no error of the program: it marks an execution that leaves what
    this model describes (a regular expression outside the modelled fragment).
\<close>

datatype error =
    UnsupportedType string
  | OrderByUnsupported
  | InvalidLimit
  | InvalidStatement string
  | TypeError
  | External string
  | Unmodelled

text \<open>
  A promise is modelled by how it ends: resolved with a value, rejected with an error, or
  never settled (\<open>Pending\<close>): neither \<^verbatim>\<open>resolve\<close> nor \<^verbatim>\<open>reject\<close> of its
  executor is ever called.
\<close>

datatype 'a promise = Resolved 'a | Rejected error | Pending

record column_def =
  def_name :: string
  def_index :: nat
  def_type :: "string option"
  def_pad :: "string option"
  def_length :: "jsval option"

text \<open>The calls a statement issues to the backend, in the order they are issued.\<close>

datatype call =
    Load string
  | Store string "string option" row
  | Remove string string
  | Create string "column_def list"
  | Drop string

text \<open>
  The backend is the abstract part of the driver class: each primitive is a function from
  its arguments to the way its promise ends. A table snapshot is the list of its
  (index, row) entries in the order the runtime enumerates them.
\<close>

record backend =
  ready :: "jsval promise"
  load :: "string \<Rightarrow> (string \<times> row) list promise"
  store :: "string \<Rightarrow> string option \<Rightarrow> row \<Rightarrow> jsval promise"
  remove :: "string \<Rightarrow> string \<Rightarrow> jsval promise"
  create :: "string \<Rightarrow> column_def list \<Rightarrow> jsval promise"
  drop_table :: "string \<Rightarrow> jsval promise"

text \<open>What a statement resolves with: selected rows, affected indices, or the backend's
  own value (create, drop).\<close>

datatype result = Rows "row list" | Indices "jsval list" | Value jsval

section \<open>The LIKE pattern compiler\<close>

text \<open>\<^verbatim>\<open>restring.replace(/([\.\*\?\$\^])/g, "\\$1")\<close>: a backslash goes before each of
  the five characters.\<close>

fun escape_meta :: "string \<Rightarrow> string" where
  "escape_meta [] = []"
| "escape_meta (c # cs) =
     (if c \<in> set ''.*?$^'' then CHR 0x5C # c # escape_meta cs else c # escape_meta cs)"

text \<open>The callback \<^verbatim>\<open>replaceIfNotPrecededBy(notPrecededBy, replacement)\<close>, applied to
  a match.\<close>

definition replaceIfNotPrecededBy :: "string \<Rightarrow> string \<Rightarrow> string \<Rightarrow> string" where
  "replaceIfNotPrecededBy notPrecededBy replacement match =
     (if take (length notPrecededBy) match = notPrecededBy then match else replacement)"

text \<open>\<^verbatim>\<open>s.replace(/(?:\\)?w/g, f)\<close> for a character \<open>w\<close>: from left to right, each
  \<open>w\<close> is a match, together with a backslash right before it; \<open>f\<close> gives what replaces
  the match.\<close>

fun replace_wild :: "char \<Rightarrow> (string \<Rightarrow> string) \<Rightarrow> string \<Rightarrow> string" where
  "replace_wild w f [] = []"
| "replace_wild w f [c] = (if c = w then f [c] else [c])"
| "replace_wild w f (c # d # cs) =
     (if c = CHR 0x5C \<and> d = w then f [c, d] @ replace_wild w f cs
      else if c = w then f [c] @ replace_wild w f (d # cs)
      else c # replace_wild w f (d # cs))"

text \<open>\<^verbatim>\<open>s.replace(pat, rep)\<close> with a string pattern: the first occurrence only.\<close>

fun replace_first :: "string \<Rightarrow> string \<Rightarrow> string \<Rightarrow> string" where
  "replace_first pat rep [] = (if pat = [] then rep else [])"
| "replace_first pat rep (c # cs) =
     (if take (length pat) (c # cs) = pat then rep @ drop (length pat) (c # cs)
      else c # replace_first pat rep cs)"

text \<open>The source of the regular expression that \<^verbatim>\<open>like2RegExp\<close> builds.\<close>

definition like2RegExp_source :: "string \<Rightarrow> string" where
  "like2RegExp_source like =
     (let restring = like;
          restring = escape_meta restring;
          restring = replace_wild (CHR ''%'') (replaceIfNotPrecededBy [CHR 0x5C] ''.*?'') restring;
          restring = replace_wild (CHR ''_'') (replaceIfNotPrecededBy [CHR 0x5C] ''.'') restring;
          restring = replace_first [CHR 0x5C, CHR ''%''] ''%'' restring;
          restring = replace_first [CHR 0x5C, CHR ''_''] ''_'' restring
      in ''^'' @ restring @ ''$'')"

subsection \<open>Regular expressions\<close>

text \<open>
  The runtime's \<^verbatim>\<open>RegExp\<close> is modelled on the fragment the compiler aims at: a
  sequence of literal characters, escaped characters, the dot, the dot under a star, and
  the two anchors. \<open>rx_parse\<close> reads a source; a source with any other construct (a group,
  a class, an alternation, another quantifier, an escape with a meaning of its own) is
  outside the fragment and has no reading here.
\<close>

datatype rx_item = RBegin | REnd | RLit char | RAny | RStar

definition is_alnum :: "char \<Rightarrow> bool" where
  "is_alnum c =
     (let n = (of_char c :: nat) in
      (48 \<le> n \<and> n \<le> 57) \<or> (65 \<le> n \<and> n \<le> 90) \<or> (97 \<le> n \<and> n \<le> 122))"

text \<open>The dot matches every character but a line terminator.\<close>

definition line_terminator :: "char \<Rightarrow> bool" where
  "line_terminator c = (c = CHR 0x0A \<or> c = CHR 0x0D)"

fun rx_parse :: "string \<Rightarrow> rx_item list option" where
  "rx_parse [] = Some []"
| "rx_parse (c # cs) =
     (if c = CHR 0x5C then
        (case cs of
           [] \<Rightarrow> None
         | d # ds \<Rightarrow> if is_alnum d then None else map_option ((#) (RLit d)) (rx_parse ds))
      else if c = CHR ''.'' then
        (if take 2 cs = ''*?'' then map_option ((#) RStar) (rx_parse (drop 2 cs))
         else map_option ((#) RAny) (rx_parse cs))
      else if c = CHR ''^'' then map_option ((#) RBegin) (rx_parse cs)
      else if c = CHR ''$'' then map_option ((#) REnd) (rx_parse cs)
      else if c \<in> set ''*+?()[]{}|'' then None
      else map_option ((#) (RLit c)) (rx_parse cs))"

text \<open>Matching the items at a position of the input: \<open>at_start\<close> tells whether the
  position is the start, the string is the input from the position on.\<close>

fun rx_match :: "rx_item list \<Rightarrow> bool \<Rightarrow> string \<Rightarrow> bool" where
  "rx_match [] at_start s = True"
| "rx_match (RBegin # items) at_start s = (at_start \<and> rx_match items at_start s)"
| "rx_match (REnd # items) at_start s = (s = [] \<and> rx_match items at_start s)"
| "rx_match (RLit c # items) at_start [] = False"
| "rx_match (RLit c # items) at_start (d # ds) = (c = d \<and> rx_match items False ds)"
| "rx_match (RAny # items) at_start [] = False"
| "rx_match (RAny # items) at_start (d # ds) = (\<not> line_terminator d \<and> rx_match items False ds)"
| "rx_match (RStar # items) at_start [] = rx_match items at_start []"
| "rx_match (RStar # items) at_start (d # ds) =
     (rx_match items at_start (d # ds) \<or>
      (\<not> line_terminator d \<and> rx_match (RStar # items) False ds))"

text \<open>\<^verbatim>\<open>re.test(s)\<close>: a match from some position of the input.\<close>

fun rx_search :: "rx_item list \<Rightarrow> bool \<Rightarrow> string \<Rightarrow> bool" where
  "rx_search items at_start [] = rx_match items at_start []"
| "rx_search items at_start (d # ds) =
     (rx_match items at_start (d # ds) \<or> rx_search items False ds)"

definition rx_test :: "rx_item list \<Rightarrow> string \<Rightarrow> bool" where
  "rx_test items s = rx_search items True s"

text \<open>\<^verbatim>\<open>like2RegExp\<close>: \<^verbatim>\<open>new RegExp('^' + restring + '$')\<close>.\<close>

definition like2RegExp :: "string \<Rightarrow> rx_item list option" where
  "like2RegExp like = rx_parse (like2RegExp_source like)"

section \<open>The predicate evaluator\<close>

text \<open>
  The expression tree of the parser: a column reference with its table (\<open>None\<close> is the
  parser's \<^verbatim>\<open>null\<close> for an unqualified column), a binary expression with its operator,
  an aggregate call with its name and argument, and a literal with its value.
\<close>

datatype expr =
    ColumnRef "string option" string
  | BinaryExpr string expr expr
  | AggrFunc string expr
  | Literal jsval

text \<open>\<^verbatim>\<open>obj.table + "." + obj.column\<close>.\<close>

definition qualified_name :: "string option \<Rightarrow> string \<Rightarrow> string" where
  "qualified_name t c = (case t of None \<Rightarrow> ''null'' | Some n \<Rightarrow> n) @ ''.'' @ c"

text \<open>
  \<^verbatim>\<open>getVal\<close> and the \<^verbatim>\<open>switch\<close> of \<^verbatim>\<open>doWhere\<close> on a node. \<^verbatim>\<open>getVal\<close> calls
  \<^verbatim>\<open>this.doWhere(obj, row)\<close> on a nested binary expression, without the namespace
  argument, which is then \<^verbatim>\<open>false\<close>. The right operand of \<^verbatim>\<open>&&\<close> is evaluated only
  when the left one is truthy. \<^verbatim>\<open>like2RegExp\<close> calls \<^verbatim>\<open>replace\<close> on the pattern value,
  a \<open>TypeError\<close> when it is no string; a pattern outside the modelled fragment of regular
  expressions is reported as \<open>Unmodelled\<close>.
\<close>

fun getVal :: "expr \<Rightarrow> row \<Rightarrow> bool \<Rightarrow> error + jsval"
  and doWhere_node :: "expr \<Rightarrow> row \<Rightarrow> bool \<Rightarrow> error + jsval" where
  "getVal (ColumnRef t c) row namespace =
     Inr (row_get row (if namespace then qualified_name t c else c))"
| "getVal (BinaryExpr operator left right) row namespace =
     doWhere_node (BinaryExpr operator left right) row False"
| "getVal (AggrFunc f a) row namespace = Inr JUndefined"
| "getVal (Literal v) row namespace = Inr v"
| "doWhere_node (BinaryExpr operator left right) row namespace =
     (if operator = ''='' then
        (case getVal left row namespace of Inl e \<Rightarrow> Inl e | Inr a \<Rightarrow>
         (case getVal right row namespace of Inl e \<Rightarrow> Inl e | Inr b \<Rightarrow>
            Inr (JBool (loose_eq a b))))
      else if operator = ''!='' \<or> operator = ''<>'' then
        (case getVal left row namespace of Inl e \<Rightarrow> Inl e | Inr a \<Rightarrow>
         (case getVal right row namespace of Inl e \<Rightarrow> Inl e | Inr b \<Rightarrow>
            Inr (JBool (\<not> loose_eq a b))))
      else if operator = ''<'' then
        (case getVal left row namespace of Inl e \<Rightarrow> Inl e | Inr a \<Rightarrow>
         (case getVal right row namespace of Inl e \<Rightarrow> Inl e | Inr b \<Rightarrow>
            Inr (JBool (js_lt a b))))
      else if operator = ''<='' then
        (case getVal left row namespace of Inl e \<Rightarrow> Inl e | Inr a \<Rightarrow>
         (case getVal right row namespace of Inl e \<Rightarrow> Inl e | Inr b \<Rightarrow>
            Inr (JBool (js_le a b))))
      else if operator = ''>'' then
        (case getVal left row namespace of Inl e \<Rightarrow> Inl e | Inr a \<Rightarrow>
         (case getVal right row namespace of Inl e \<Rightarrow> Inl e | Inr b \<Rightarrow>
            Inr (JBool (js_gt a b))))
      else if operator = ''>='' then
        (case getVal left row namespace of Inl e \<Rightarrow> Inl e | Inr a \<Rightarrow>
         (case getVal right row namespace of Inl e \<Rightarrow> Inl e | Inr b \<Rightarrow>
            Inr (JBool (js_ge a b))))
      else if operator = ''AND'' then
        (case getVal left row namespace of Inl e \<Rightarrow> Inl e | Inr a \<Rightarrow>
           if truthy a then getVal right row namespace else Inr a)
      else if operator = ''OR'' then
        (case getVal left row namespace of Inl e \<Rightarrow> Inl e | Inr a \<Rightarrow>
           if truthy a then getVal right row namespace else Inr a)
      else if operator = ''IS'' then
        (case getVal left row namespace of Inl e \<Rightarrow> Inl e | Inr a \<Rightarrow>
         (case getVal right row namespace of Inl e \<Rightarrow> Inl e | Inr b \<Rightarrow>
            Inr (JBool (strict_eq a b))))
      else if operator = ''LIKE'' then
        (case getVal right row namespace of Inl e \<Rightarrow> Inl e | Inr p \<Rightarrow>
         (case p of
            JStr like \<Rightarrow>
              (case like2RegExp like of
                 None \<Rightarrow> Inl Unmodelled
               | Some re \<Rightarrow>
                   (case getVal left row namespace of Inl e \<Rightarrow> Inl e | Inr a \<Rightarrow>
                      Inr (JBool (rx_test re (toString a) = True))))
          | _ \<Rightarrow> Inl TypeError))
      else if operator = ''NOT LIKE'' then
        (case getVal right row namespace of Inl e \<Rightarrow> Inl e | Inr p \<Rightarrow>
         (case p of
            JStr like \<Rightarrow>
              (case like2RegExp like of
                 None \<Rightarrow> Inl Unmodelled
               | Some re \<Rightarrow>
                   (case getVal left row namespace of Inl e \<Rightarrow> Inl e | Inr a \<Rightarrow>
                      Inr (JBool (rx_test re (toString a) = False))))
          | _ \<Rightarrow> Inl TypeError))
      else Inr (JBool False))"
| "doWhere_node (ColumnRef t c) row namespace = Inr (JBool False)"
| "doWhere_node (AggrFunc f a) row namespace = Inr (JBool False)"
| "doWhere_node (Literal v) row namespace = Inr (JBool False)"

text \<open>\<^verbatim>\<open>doWhere(where, row, namespace)\<close>; \<open>None\<close> is the \<^verbatim>\<open>null\<close> clause.\<close>

definition doWhere :: "expr option \<Rightarrow> row \<Rightarrow> bool \<Rightarrow> error + jsval" where
  "doWhere w row namespace =
     (case w of None \<Rightarrow> Inr (JBool True) | Some e \<Rightarrow> doWhere_node e row namespace)"

section \<open>The join engine\<close>

text \<open>The two \<^verbatim>\<open>for (var k in ...)\<close> loops that build \<^verbatim>\<open>bigrow\<close>: the fields of the
  destination row, then those of the source row over them.\<close>

definition merge_rows :: "row \<Rightarrow> row \<Rightarrow> row" where
  "merge_rows destRow srcRow =
     foldl (\<lambda>bigrow (k, v). row_set bigrow k v)
       (foldl (\<lambda>bigrow (k, v). row_set bigrow k v) [] destRow) srcRow"

text \<open>
  The inner loop of \<^verbatim>\<open>join\<close>, over the source rows with their \<^verbatim>\<open>used\<close> marks, for
  one destination row: it returns the rows pushed so far, the mark of the destination row
  and the source rows with their new marks. A throw of \<^verbatim>\<open>doWhere\<close> ends the join.
\<close>

fun join_src ::
  "expr option \<Rightarrow> bool \<Rightarrow> row \<Rightarrow> (bool \<times> row) list \<Rightarrow> row list \<Rightarrow> bool
     \<Rightarrow> error + (row list \<times> bool \<times> (bool \<times> row) list)" where
  "join_src query namespace destRow [] rows used = Inr (rows, used, [])"
| "join_src query namespace destRow ((srcUsed, srcRow) # srcRows) rows used =
     (let bigrow = merge_rows destRow srcRow in
      case doWhere query bigrow namespace of
        Inl e \<Rightarrow> Inl e
      | Inr t \<Rightarrow>
          if truthy t then
            (case join_src query namespace destRow srcRows (rows @ [bigrow]) True of
               Inl e \<Rightarrow> Inl e
             | Inr (rows', used', srcRows') \<Rightarrow> Inr (rows', used', (True, srcRow) # srcRows'))
          else
            (case join_src query namespace destRow srcRows rows used of
               Inl e \<Rightarrow> Inl e
             | Inr (rows', used', srcRows') \<Rightarrow> Inr (rows', used', (srcUsed, srcRow) # srcRows')))"

text \<open>The outer loop, over the destination rows with their marks.\<close>

fun join_dest ::
  "expr option \<Rightarrow> bool \<Rightarrow> (bool \<times> row) list \<Rightarrow> (bool \<times> row) list \<Rightarrow> row list
     \<Rightarrow> error + (row list \<times> (bool \<times> row) list \<times> (bool \<times> row) list)" where
  "join_dest query namespace [] srcRows rows = Inr (rows, [], srcRows)"
| "join_dest query namespace ((destUsed, destRow) # destRows) srcRows rows =
     (case join_src query namespace destRow srcRows rows destUsed of
        Inl e \<Rightarrow> Inl e
      | Inr (rows', used, srcRows') \<Rightarrow>
          (case join_dest query namespace destRows srcRows' rows' of
             Inl e \<Rightarrow> Inl e
           | Inr (rows'', destRows', srcRows'') \<Rightarrow>
               Inr (rows'', (used, destRow) # destRows', srcRows'')))"

definition join ::
  "row list \<Rightarrow> row list \<Rightarrow> expr option \<Rightarrow> bool \<Rightarrow> bool \<Rightarrow> bool \<Rightarrow> error + row list" where
  "join dest src query includeAllDest includeAllSrc namespace =
     (let destRows = map (\<lambda>row. (False, row)) dest;
          srcRows = map (\<lambda>row. (False, row)) src
      in case join_dest query namespace destRows srcRows [] of
           Inl e \<Rightarrow> Inl e
         | Inr (rows, destRows', srcRows') \<Rightarrow>
             (let rows = (if includeAllDest
                          then rows @ map snd (filter (\<lambda>row. fst row = False) destRows')
                          else rows);
                  rows = (if includeAllSrc
                          then rows @ map snd (filter (\<lambda>row. fst row = False) srcRows')
                          else rows)
              in Inr rows))"

section \<open>The projector and aggregator\<close>

text \<open>A select column: \<^verbatim>\<open>col.expr\<close> and the alias \<^verbatim>\<open>col.as\<close> (\<open>None\<close> for
  \<^verbatim>\<open>null\<close>); an ORDER BY key: \<^verbatim>\<open>orderer.expr\<close> and \<^verbatim>\<open>orderer.type\<close>; a FROM entry:
  its table, its join kind and its ON predicate.\<close>

record column =
  expr :: expr
  as :: "string option"

datatype columns = Star | Columns "column list"

record orderer =
  ord_expr :: expr
  ord_type :: string

record from_item =
  from_table :: string
  from_join :: "string option"
  from_on :: "expr option"

text \<open>The select statement. \<open>sel_limit\<close> holds the \<^verbatim>\<open>value\<close> of each entry of the
  parser's limit list.\<close>

record select_stmt =
  sel_columns :: columns
  sel_from :: "from_item list"
  sel_where :: "expr option"
  sel_groupby :: "expr list option"
  sel_orderby :: "orderer list option"
  sel_limit :: "jsval list option"

text \<open>The properties \<^verbatim>\<open>type\<close>, \<^verbatim>\<open>table\<close> and \<^verbatim>\<open>column\<close> of a node;
  a node without the property gives \<^verbatim>\<open>undefined\<close>.\<close>

fun expr_type :: "expr \<Rightarrow> string" where
  "expr_type (ColumnRef t c) = ''column_ref''"
| "expr_type (BinaryExpr operator left right) = ''binary_expr''"
| "expr_type (AggrFunc f a) = ''aggr_func''"
| "expr_type (Literal v) = ''literal''"

fun expr_table :: "expr \<Rightarrow> jsval" where
  "expr_table (ColumnRef t c) = (case t of None \<Rightarrow> JNull | Some n \<Rightarrow> JStr n)"
| "expr_table e = JUndefined"

fun expr_column :: "expr \<Rightarrow> jsval" where
  "expr_column (ColumnRef t c) = JStr c"
| "expr_column e = JUndefined"

text \<open>The operator \<^verbatim>\<open>+\<close>: concatenation when an operand is a string, addition of the
  operands as numbers otherwise.\<close>

definition js_add :: "jsval \<Rightarrow> jsval \<Rightarrow> jsval" where
  "js_add a b =
     (case (a, b) of
        (JStr s, _) \<Rightarrow> JStr (s @ toString b)
      | (_, JStr t) \<Rightarrow> JStr (toString a @ t)
      | _ \<Rightarrow> (case (toNumber a, toNumber b) of
                (JNum x, JNum y) \<Rightarrow> JNum (x + y)
              | _ \<Rightarrow> JNaN))"

text \<open>\<^verbatim>\<open>col.as || other\<close>: the alias unless it is falsy (\<^verbatim>\<open>null\<close> or empty).\<close>

definition as_or :: "string option \<Rightarrow> string \<Rightarrow> string" where
  "as_or a other = (case a of None \<Rightarrow> other | Some n \<Rightarrow> if n = [] then other else n)"

text \<open>
  The closure \<^verbatim>\<open>groupby\<close> of \<^verbatim>\<open>chooseFields\<close>: the data, with an empty row pushed when
  no group is found, and the index of the row's group. The scan compares
  \<^verbatim>\<open>drow[group.column] == row[group.column]\<close> for every group column.
\<close>

definition group_matches :: "expr list \<Rightarrow> row \<Rightarrow> row \<Rightarrow> bool" where
  "group_matches groups row drow =
     list_all (\<lambda>group. loose_eq (row_get drow (toString (expr_column group)))
                                 (row_get row (toString (expr_column group)))) groups"

text \<open>\<^verbatim>\<open>Array.prototype.findIndex\<close>: \<open>None\<close> is \<open>-1\<close>.\<close>

fun findIndex :: "('a \<Rightarrow> bool) \<Rightarrow> 'a list \<Rightarrow> nat option" where
  "findIndex p [] = None"
| "findIndex p (x # xs) =
     (if p x then Some 0 else map_option Suc (findIndex p xs))"

definition groupby :: "select_stmt \<Rightarrow> row list \<Rightarrow> row \<Rightarrow> row list \<times> nat" where
  "groupby sqlobj data row =
     (case sel_groupby sqlobj of
        None \<Rightarrow> if length data < 1 then (data @ [[]], 0) else (data, 0)
      | Some groups \<Rightarrow>
          (case findIndex (group_matches groups row) data of
             None \<Rightarrow> (data @ [[]], length (data @ [[]]) - 1)
           | Some result \<Rightarrow> (data, result)))"

text \<open>The body of the loop over the columns in aggregate mode, on the group row
  \<^verbatim>\<open>data[index]\<close>.\<close>

definition aggregate_column :: "column \<Rightarrow> row \<Rightarrow> row \<Rightarrow> row" where
  "aggregate_column col row drow =
     (case expr col of
        ColumnRef t c \<Rightarrow> row_set drow (as_or (as col) c) (row_get row c)
      | AggrFunc f a \<Rightarrow>
          (let name = as_or (as col) (toUpperCase f @ ''('' @ toString (expr_column a) @ '')'')
           in if toUpperCase f = ''SUM'' then
                (let drow = (if row_get drow name = JUndefined then row_set drow name (JNum 0)
                             else drow)
                 in row_set drow name
                      (js_add (row_get drow name) (row_get row (toString (expr_column a)))))
              else if toUpperCase f = ''COUNT'' then
                (let drow = (if row_get drow name = JUndefined then row_set drow name (JNum 0)
                             else drow)
                 in row_set drow name (js_add (toNumber (row_get drow name)) (JNum 1)))
              else drow)
      | _ \<Rightarrow> drow)"

text \<open>The body of the loop over the columns in flat mode, on \<^verbatim>\<open>result\<close>.\<close>

definition flat_column :: "bool \<Rightarrow> column \<Rightarrow> row \<Rightarrow> row \<Rightarrow> row" where
  "flat_column namespace col row result =
     (let field = (if namespace
                   then toString (expr_table (expr col)) @ ''.'' @ toString (expr_column (expr col))
                   else toString (expr_column (expr col)));
          name = as_or (as col) field;
          result = row_set result name (row_get row field)
      in if row_get result name = JUndefined then row_set result name JNull else result)"

definition isAggregate :: "column list \<Rightarrow> bool" where
  "isAggregate cols = list_ex (\<lambda>col. expr_type (expr col) = ''aggr_func'') cols"

text \<open>\<^verbatim>\<open>chooseFields(sqlobj, data, row, namespace)\<close>: the data after the call.\<close>

definition chooseFields :: "select_stmt \<Rightarrow> row list \<Rightarrow> row \<Rightarrow> bool \<Rightarrow> row list" where
  "chooseFields sqlobj data row namespace =
     (case sel_columns sqlobj of
        Star \<Rightarrow> data @ [row]
      | Columns cols \<Rightarrow>
          if isAggregate cols = True then
            (let (data, index) = groupby sqlobj data row
             in data[index := foldl (\<lambda>drow col. aggregate_column col row drow) (data ! index) cols])
          else
            data @ [foldl (\<lambda>result col. flat_column namespace col row result) [] cols])"

section \<open>SELECT\<close>

text \<open>
  \<^verbatim>\<open>Promise.all\<close>: rejected as soon as one promise is rejected (rejections are taken to
  arrive in the order of the list), never settled when none is rejected and one never
  settles, and resolved with all the values otherwise.
\<close>

fun all_resolved :: "'a promise list \<Rightarrow> 'a list option" where
  "all_resolved [] = Some []"
| "all_resolved (Resolved v # ps) = map_option ((#) v) (all_resolved ps)"
| "all_resolved (p # ps) = None"

fun first_rejected :: "'a promise list \<Rightarrow> error option" where
  "first_rejected [] = None"
| "first_rejected (Rejected e # ps) = Some e"
| "first_rejected (p # ps) = first_rejected ps"

definition promise_all :: "'a promise list \<Rightarrow> 'a list promise" where
  "promise_all ps =
     (case first_rejected ps of
        Some e \<Rightarrow> Rejected e
      | None \<Rightarrow> (case all_resolved ps of Some vs \<Rightarrow> Resolved vs | None \<Rightarrow> Pending))"

text \<open>The namespaced copy \<^verbatim>\<open>nsRow\<close> of a row:
  \<^verbatim>\<open>nsRow[table + "." + key] = row[key]\<close> for each key.\<close>

definition nsRow :: "string \<Rightarrow> row \<Rightarrow> row" where
  "nsRow table row = foldl (\<lambda>nsRow (key, v). row_set nsRow (table @ ''.'' @ key) v) [] row"

text \<open>The row list of a loaded table: \<^verbatim>\<open>Object.values(table)\<close>, namespaced when the
  statement has more than one table.\<close>

definition table_rows :: "bool \<Rightarrow> from_item \<Rightarrow> (string \<times> row) list \<Rightarrow> row list" where
  "table_rows namespace f table =
     (let rows = map snd table
      in if namespace then map (nsRow (from_table f)) rows else rows)"

text \<open>
  The loop \<^verbatim>\<open>while (tables.length > 1)\<close>: the second table is joined into the first by
  its join kind and then removed. The \<^verbatim>\<open>switch\<close> has no \<^verbatim>\<open>default\<close>: with another join
  kind the second table is removed and the rows stay.
\<close>

fun join_tables ::
  "row list \<Rightarrow> (from_item \<times> row list) list \<Rightarrow> bool \<Rightarrow> error + row list" where
  "join_tables rows [] namespace = Inr rows"
| "join_tables rows ((f, rows1) # tables) namespace =
     (case (if from_join f = Some ''INNER JOIN''
              then join rows rows1 (from_on f) False False namespace
            else if from_join f = Some ''LEFT JOIN''
              then join rows rows1 (from_on f) True False namespace
            else if from_join f = Some ''RIGHT JOIN''
              then join rows rows1 (from_on f) False True namespace
            else if from_join f = Some ''FULL JOIN''
              then join rows rows1 (from_on f) True True namespace
            else Inr rows) of
        Inl e \<Rightarrow> Inl e
      | Inr rows' \<Rightarrow> join_tables rows' tables namespace)"

text \<open>\<^verbatim>\<open>rows.filter(row => this.doWhere(sqlobj.where, row, namespace))\<close>.\<close>

fun filter_where :: "expr option \<Rightarrow> bool \<Rightarrow> row list \<Rightarrow> error + row list" where
  "filter_where w namespace [] = Inr []"
| "filter_where w namespace (row # rows) =
     (case doWhere w row namespace of
        Inl e \<Rightarrow> Inl e
      | Inr t \<Rightarrow>
          (case filter_where w namespace rows of
             Inl e \<Rightarrow> Inl e
           | Inr rows' \<Rightarrow> Inr (if truthy t then row # rows' else rows')))"

text \<open>
  The comparator given to \<^verbatim>\<open>sort\<close>: for each key in turn, the column name is computed,
  a key that is no column reference throws, and the first key on which the rows differ
  decides.
\<close>

fun compare_rows :: "orderer list \<Rightarrow> bool \<Rightarrow> row \<Rightarrow> row \<Rightarrow> error + int" where
  "compare_rows [] namespace a b = Inr 0"
| "compare_rows (orderer # orderers) namespace a b =
     (let column = (if namespace
                    then toString (expr_table (ord_expr orderer)) @ ''.''
                           @ toString (expr_column (ord_expr orderer))
                    else toString (expr_column (ord_expr orderer)))
      in if expr_type (ord_expr orderer) \<noteq> ''column_ref'' then Inl OrderByUnsupported
         else if js_gt (row_get a column) (row_get b column)
           then Inr (if ord_type orderer = ''ASC'' then 1 else - 1)
         else if js_lt (row_get a column) (row_get b column)
           then Inr (if ord_type orderer = ''ASC'' then - 1 else 1)
         else compare_rows orderers namespace a b)"

text \<open>
  \<^verbatim>\<open>Array.prototype.sort\<close> with a comparator that may throw. The runtime's algorithm is
  its own; it is stable, and it calls the comparator on no array of fewer than two
  elements. It is modelled by the stable insertion sort.
\<close>

fun sort_insert :: "('a \<Rightarrow> 'a \<Rightarrow> error + int) \<Rightarrow> 'a \<Rightarrow> 'a list \<Rightarrow> error + 'a list" where
  "sort_insert cmp x [] = Inr [x]"
| "sort_insert cmp x (y # ys) =
     (case cmp x y of
        Inl e \<Rightarrow> Inl e
      | Inr c \<Rightarrow>
          if c \<le> 0 then Inr (x # y # ys)
          else (case sort_insert cmp x ys of Inl e \<Rightarrow> Inl e | Inr zs \<Rightarrow> Inr (y # zs)))"

fun sort_by :: "('a \<Rightarrow> 'a \<Rightarrow> error + int) \<Rightarrow> 'a list \<Rightarrow> error + 'a list" where
  "sort_by cmp [] = Inr []"
| "sort_by cmp (x # xs) =
     (case sort_by cmp xs of Inl e \<Rightarrow> Inl e | Inr ys \<Rightarrow> sort_insert cmp x ys)"

text \<open>\<^verbatim>\<open>Array.prototype.slice(start, end)\<close> with numbers as arguments: \<open>NaN\<close> counts as
  0 and a negative position counts from the end.\<close>

definition slice_index :: "nat \<Rightarrow> jsval \<Rightarrow> nat" where
  "slice_index len v =
     (case v of
        JNum i \<Rightarrow> if i < 0 then nat (max (int len + i) 0) else min (nat i) len
      | _ \<Rightarrow> 0)"

definition slice :: "'a list \<Rightarrow> jsval \<Rightarrow> jsval \<Rightarrow> 'a list" where
  "slice xs start end =
     (let k = slice_index (length xs) start; final = slice_index (length xs) end
      in take (final - k) (drop k xs))"

text \<open>
  The callback of \<^verbatim>\<open>Promise.all(promises).then\<close> in \<^verbatim>\<open>doSelect\<close>, on the loaded
  tables: join, filter, sort, project, limit. \<open>Inl\<close> is a throw inside the callback;
  \<^verbatim>\<open>tables[0].rows\<close> on an empty list of tables is a \<open>TypeError\<close>.
\<close>

definition doSelect_body :: "select_stmt \<Rightarrow> (string \<times> row) list list \<Rightarrow> error + row list" where
  "doSelect_body sqlobj tableset =
     (let namespace = length (sel_from sqlobj) > 1;
          tables = map (\<lambda>(f, table). (f, table_rows namespace f table))
                     (zip (sel_from sqlobj) tableset)
      in case tables of
           [] \<Rightarrow> Inl TypeError
         | (f0, rows0) # rest \<Rightarrow>
             (case join_tables rows0 rest namespace of
                Inl e \<Rightarrow> Inl e
              | Inr rows \<Rightarrow>
                  (case filter_where (sel_where sqlobj) namespace rows of
                     Inl e \<Rightarrow> Inl e
                   | Inr resultRows \<Rightarrow>
                       (case (case sel_orderby sqlobj of
                                None \<Rightarrow> Inr resultRows
                              | Some orderers \<Rightarrow>
                                  sort_by (compare_rows orderers namespace) resultRows) of
                          Inl e \<Rightarrow> Inl e
                        | Inr resultRows \<Rightarrow>
                            (let result = foldl (\<lambda>result row.
                                             chooseFields sqlobj result row namespace)
                                           [] resultRows
                             in case sel_limit sqlobj of
                                  None \<Rightarrow> Inr result
                                | Some limit \<Rightarrow>
                                    if length limit \<noteq> 2 then Inl InvalidLimit
                                    else (let offs = parseInt (at_index limit 0);
                                              len = parseInt (at_index limit 1)
                                          in Inr (slice result offs (js_add offs len))))))))"

text \<open>
  \<^verbatim>\<open>doSelect\<close>: every table of the FROM list is loaded, and the callback runs when all
  loads have resolved. The chain \<^verbatim>\<open>Promise.all(promises).then(...)\<close> has no rejection
  handler and \<^verbatim>\<open>reject\<close> is never called: when a load is rejected, or the callback
  throws, the promise of \<^verbatim>\<open>doSelect\<close> is never settled.
\<close>

definition doSelect :: "backend \<Rightarrow> select_stmt \<Rightarrow> call list \<times> result promise" where
  "doSelect be sqlobj =
     (map (\<lambda>f. Load (from_table f)) (sel_from sqlobj),
      (case promise_all (map (\<lambda>f. load be (from_table f)) (sel_from sqlobj)) of
         Resolved tableset \<Rightarrow>
           (case doSelect_body sqlobj tableset of
              Inl e \<Rightarrow> Pending
            | Inr result \<Rightarrow> Resolved (Rows result))
       | Rejected e \<Rightarrow> Pending
       | Pending \<Rightarrow> Pending))"

section \<open>UPDATE, INSERT, DELETE and DROP\<close>

text \<open>The statements: an update's SET list holds each \<^verbatim>\<open>item.column\<close> with its
  \<^verbatim>\<open>item.value.value\<close>, an insert's VALUES list holds the values of each tuple.\<close>

record update_stmt =
  upd_table :: string
  upd_set :: "(string \<times> jsval) list"
  upd_where :: "expr option"

record insert_stmt =
  ins_table :: string
  ins_columns :: "string list"
  ins_values :: "jsval list list"

record delete_stmt =
  del_from :: "from_item list"
  del_where :: "expr option"

text \<open>
  The loop of \<^verbatim>\<open>doUpdate\<close> over the loaded table: a row on which \<^verbatim>\<open>doWhere\<close> is
  \<^verbatim>\<open>=== true\<close> is stored and its index kept. The result is the calls issued, and the
  promises and indices, or the throw that ended the loop.
\<close>

fun update_loop ::
  "backend \<Rightarrow> update_stmt \<Rightarrow> row \<Rightarrow> (string \<times> row) list
     \<Rightarrow> call list \<times> (error + jsval promise list \<times> string list)" where
  "update_loop be sqlobj updateObj [] = ([], Inr ([], []))"
| "update_loop be sqlobj updateObj ((row_id, row) # table) =
     (case doWhere (upd_where sqlobj) row False of
        Inl e \<Rightarrow> ([], Inl e)
      | Inr t \<Rightarrow>
          (let (calls, r) = update_loop be sqlobj updateObj table
           in if t = JBool True
              then (Store (upd_table sqlobj) (Some row_id) updateObj # calls,
                    (case r of
                       Inl e \<Rightarrow> Inl e
                     | Inr (promises, rows) \<Rightarrow>
                         Inr (store be (upd_table sqlobj) (Some row_id) updateObj # promises,
                              row_id # rows)))
              else (calls, r)))"

text \<open>
  \<^verbatim>\<open>doUpdate\<close>: \<^verbatim>\<open>this.load(sqlobj.table).then(...)\<close> has no rejection handler, so a
  rejected load or a throw of the loop leaves the promise unsettled; the stores are joined
  with \<^verbatim>\<open>.then(resolve).catch(reject)\<close>.
\<close>

definition doUpdate :: "backend \<Rightarrow> update_stmt \<Rightarrow> call list \<times> result promise" where
  "doUpdate be sqlobj =
     (case load be (upd_table sqlobj) of
        Resolved table \<Rightarrow>
          (let updateObj = foldl (\<lambda>updateObj (c, v). row_set updateObj c v) [] (upd_set sqlobj);
               (calls, r) = update_loop be sqlobj updateObj table
           in (Load (upd_table sqlobj) # calls,
               (case r of
                  Inl e \<Rightarrow> Pending
                | Inr (promises, rows) \<Rightarrow>
                    (case promise_all promises of
                       Resolved values \<Rightarrow> Resolved (Indices (map JStr rows))
                     | Rejected reason \<Rightarrow> Rejected reason
                     | Pending \<Rightarrow> Pending))))
      | Rejected e \<Rightarrow> ([Load (upd_table sqlobj)], Pending)
      | Pending \<Rightarrow> ([Load (upd_table sqlobj)], Pending))"

text \<open>The row of one VALUES tuple: \<^verbatim>\<open>data[columns[n]] = values[i].value[n].value\<close>;
  reading \<^verbatim>\<open>.value\<close> past the end of the tuple is a \<open>TypeError\<close>.\<close>

fun insert_data :: "string list \<Rightarrow> jsval list \<Rightarrow> row \<Rightarrow> error + row" where
  "insert_data [] vs data = Inr data"
| "insert_data (c # cs) [] data = Inl TypeError"
| "insert_data (c # cs) (v # vs) data = insert_data cs vs (row_set data c v)"

fun insert_loop ::
  "backend \<Rightarrow> insert_stmt \<Rightarrow> jsval list list \<Rightarrow> call list \<times> (error + jsval promise list)" where
  "insert_loop be sqlobj [] = ([], Inr [])"
| "insert_loop be sqlobj (tuple # tuples) =
     (case insert_data (ins_columns sqlobj) tuple [] of
        Inl e \<Rightarrow> ([], Inl e)
      | Inr data \<Rightarrow>
          (let (calls, r) = insert_loop be sqlobj tuples
           in (Store (ins_table sqlobj) None data # calls,
               (case r of
                  Inl e \<Rightarrow> Inl e
                | Inr rows \<Rightarrow> Inr (store be (ins_table sqlobj) None data # rows)))))"

text \<open>\<^verbatim>\<open>doInsert\<close>: the loop runs in the executor, where a throw rejects the promise.\<close>

definition doInsert :: "backend \<Rightarrow> insert_stmt \<Rightarrow> call list \<times> result promise" where
  "doInsert be sqlobj =
     (let (calls, r) = insert_loop be sqlobj (ins_values sqlobj)
      in (calls,
          (case r of
             Inl e \<Rightarrow> Rejected e
           | Inr rows \<Rightarrow>
               (case promise_all rows of
                  Resolved values \<Rightarrow> Resolved (Indices values)
                | Rejected reason \<Rightarrow> Rejected reason
                | Pending \<Rightarrow> Pending))))"

fun delete_loop ::
  "backend \<Rightarrow> string \<Rightarrow> expr option \<Rightarrow> (string \<times> row) list
     \<Rightarrow> call list \<times> (error + jsval promise list \<times> string list)" where
  "delete_loop be t w [] = ([], Inr ([], []))"
| "delete_loop be t w ((row_id, row) # table) =
     (case doWhere w row False of
        Inl e \<Rightarrow> ([], Inl e)
      | Inr v \<Rightarrow>
          (let (calls, r) = delete_loop be t w table
           in if v = JBool True
              then (Remove t row_id # calls,
                    (case r of
                       Inl e \<Rightarrow> Inl e
                     | Inr (promises, rowIds) \<Rightarrow>
                         Inr (remove be t row_id # promises, row_id # rowIds)))
              else (calls, r)))"

text \<open>\<^verbatim>\<open>doDelete\<close>: \<^verbatim>\<open>sqlobj.from[0].table\<close> on an empty FROM list is a
  \<open>TypeError\<close> in the executor; the load has no rejection handler.\<close>

definition doDelete :: "backend \<Rightarrow> delete_stmt \<Rightarrow> call list \<times> result promise" where
  "doDelete be sqlobj =
     (case del_from sqlobj of
        [] \<Rightarrow> ([], Rejected TypeError)
      | f # fs \<Rightarrow>
          (case load be (from_table f) of
             Resolved table \<Rightarrow>
               (let (calls, r) = delete_loop be (from_table f) (del_where sqlobj) table
                in (Load (from_table f) # calls,
                    (case r of
                       Inl e \<Rightarrow> Pending
                     | Inr (promises, rowIds) \<Rightarrow>
                         (case promise_all promises of
                            Resolved values \<Rightarrow> Resolved (Indices (map JStr rowIds))
                          | Rejected reason \<Rightarrow> Rejected reason
                          | Pending \<Rightarrow> Pending))))
           | Rejected e \<Rightarrow> ([Load (from_table f)], Pending)
           | Pending \<Rightarrow> ([Load (from_table f)], Pending)))"

text \<open>\<^verbatim>\<open>doDrop\<close> returns the backend's promise itself.\<close>

definition doDrop :: "backend \<Rightarrow> string \<Rightarrow> call list \<times> result promise" where
  "doDrop be t =
     ([Drop t],
      (case drop_table be t of
         Resolved success \<Rightarrow> Resolved (Value success)
       | Rejected e \<Rightarrow> Rejected e
       | Pending \<Rightarrow> Pending))"

section \<open>CREATE TABLE\<close>

text \<open>A parsed column: \<^verbatim>\<open>col.name\<close>, \<^verbatim>\<open>col.type.type\<close> and the argument
  array \<^verbatim>\<open>col.type.args\<close> (empty when the type has no argument).\<close>

record column_spec =
  col_name :: string
  col_type :: string
  col_args :: "jsval list"

record create_stmt =
  cre_table :: string
  cre_columns :: "column_spec list"

text \<open>The body of the loop of \<^verbatim>\<open>doCreate\<close> for one column with ordinal \<open>n\<close>: the
  \<^verbatim>\<open>switch\<close> on the upper-cased type token. It has no \<^verbatim>\<open>default\<close> case.\<close>

definition doCreate_column :: "column_spec \<Rightarrow> nat \<Rightarrow> error + column_def" where
  "doCreate_column col n =
     (let column = \<lparr>def_name = col_name col, def_index = n, def_type = None,
                     def_pad = None, def_length = None\<rparr>;
          T = toUpperCase (col_type col)
      in if T = ''CHAR'' \<or> T = ''CHARACTER'' then
           Inr (column\<lparr>def_type := Some ''string'', def_pad := Some '' '',
                        def_length := Some (parseInt (at_index (col_args col) 0))\<rparr>)
         else if T = ''VARCHAR'' then
           Inr (column\<lparr>def_type := Some ''string'',
                        def_length := Some (parseInt (at_index (col_args col) 0))\<rparr>)
         else if T = ''BINARY'' \<or> T = ''VARBINARY'' then
           Inr (column\<lparr>def_type := Some ''binary'',
                        def_length := Some (parseInt (at_index (col_args col) 0))\<rparr>)
         else if T = ''BOOLEAN'' then Inr (column\<lparr>def_type := Some ''boolean''\<rparr>)
         else if T = ''INTEGER'' \<or> T = ''SMALLINT'' \<or> T = ''BIGINT'' then
           Inr (column\<lparr>def_type := Some ''integer''\<rparr>)
         else if T = ''DECIMAL'' \<or> T = ''NUMERIC'' \<or> T = ''FLOAT'' \<or> T = ''REAL''
                 \<or> T = ''DOUBLE'' then
           Inr (column\<lparr>def_type := Some ''float''\<rparr>)
         else if T = ''DATE'' \<or> T = ''TIME'' \<or> T = ''TIMESTAMP'' then
           Inr (column\<lparr>def_type := Some ''date''\<rparr>)
         else if T = ''INTERVAL'' \<or> T = ''ARRAY'' \<or> T = ''MULTISET'' \<or> T = ''XML'' then
           Inl (UnsupportedType T)
         else if T = ''TEXT'' then Inr (column\<lparr>def_type := Some ''string''\<rparr>)
         else Inr column)"

text \<open>The loop over the columns: \<open>n\<close> counts up, the first throw ends it.\<close>

fun doCreate_columns :: "column_spec list \<Rightarrow> nat \<Rightarrow> error + column_def list" where
  "doCreate_columns [] n = Inr []"
| "doCreate_columns (col # cols) n =
     (case doCreate_column col n of
        Inl e \<Rightarrow> Inl e
      | Inr column \<Rightarrow>
          (case doCreate_columns cols (Suc n) of
             Inl e \<Rightarrow> Inl e
           | Inr columns \<Rightarrow> Inr (column # columns)))"

text \<open>
  \<^verbatim>\<open>doCreate\<close>: a throw in the executor rejects the promise; otherwise
  \<^verbatim>\<open>create\<close> is called, and only its resolution is forwarded
  (\<^verbatim>\<open>.then(success => resolve(success))\<close> with no rejection handler).
\<close>

definition doCreate :: "backend \<Rightarrow> create_stmt \<Rightarrow> call list \<times> result promise" where
  "doCreate be sqlobj =
     (case doCreate_columns (cre_columns sqlobj) 0 of
        Inl e \<Rightarrow> ([], Rejected e)
      | Inr columns \<Rightarrow>
          ([Create (cre_table sqlobj) columns],
           (case create be (cre_table sqlobj) columns of
              Resolved success \<Rightarrow> Resolved (Value success)
            | Rejected e \<Rightarrow> Pending
            | Pending \<Rightarrow> Pending)))"

section \<open>The statement dispatcher\<close>

text \<open>The statement tree, by its \<^verbatim>\<open>type\<close>; \<open>Other k\<close> is a tree of another type \<open>k\<close>.\<close>

datatype statement =
    Select select_stmt
  | Update update_stmt
  | Insert insert_stmt
  | Delete delete_stmt
  | CreateTable create_stmt
  | DropTable string
  | Other string

text \<open>
  The fallback \<^verbatim>\<open>ExtendedSyntax.DROP\<close>: the table name when the text matches
  \<^verbatim>\<open>/^\s*DROP\s+TABLE\s+(\S+)\s*;?$/i\<close>. The group takes the whole run of characters that are
  no white space, a final semicolon included.
\<close>

definition drop_syntax :: "string \<Rightarrow> string option" where
  "drop_syntax sql =
     (let s1 = dropWhile is_space sql;
          s2 = drop 4 s1;
          s3 = dropWhile is_space s2;
          s4 = drop 5 s3;
          s5 = dropWhile is_space s4;
          name = takeWhile (\<lambda>c. \<not> is_space c) s5;
          s6 = dropWhile is_space (dropWhile (\<lambda>c. \<not> is_space c) s5)
      in if toUpperCase (take 4 s1) = ''DROP'' \<and> s2 \<noteq> [] \<and> is_space (hd s2)
            \<and> toUpperCase (take 5 s3) = ''TABLE'' \<and> s4 \<noteq> [] \<and> is_space (hd s4)
            \<and> name \<noteq> [] \<and> (s6 = [] \<or> s6 = '';'')
         then Some name else None)"

text \<open>The \<^verbatim>\<open>switch\<close> of \<^verbatim>\<open>runSQL\<close>: each statement's promise is forwarded with
  \<^verbatim>\<open>.then(resolve).catch(reject)\<close>.\<close>

definition dispatch :: "backend \<Rightarrow> statement \<Rightarrow> call list \<times> result promise" where
  "dispatch be sqlobj =
     (case sqlobj of
        Select s \<Rightarrow> doSelect be s
      | Update s \<Rightarrow> doUpdate be s
      | Insert s \<Rightarrow> doInsert be s
      | Delete s \<Rightarrow> doDelete be s
      | CreateTable s \<Rightarrow> doCreate be s
      | DropTable t \<Rightarrow> doDrop be t
      | Other k \<Rightarrow> ([], Rejected (InvalidStatement k)))"

text \<open>
  \<^verbatim>\<open>runSQL\<close>, with the parser \<^verbatim>\<open>parse\<close> of \<^verbatim>\<open>node-sqlparser\<close> as a parameter
  (\<open>Inl\<close> is its exception). \<^verbatim>\<open>this.ready().then(...)\<close> has no rejection handler.
\<close>

definition runSQL ::
  "backend \<Rightarrow> (string \<Rightarrow> error + statement) \<Rightarrow> string \<Rightarrow> call list \<times> result promise" where
  "runSQL be parse sql =
     (case ready be of
        Resolved r \<Rightarrow>
          (case parse sql of
             Inr sqlobj \<Rightarrow> dispatch be sqlobj
           | Inl err \<Rightarrow>
               (case drop_syntax sql of
                  Some t \<Rightarrow> dispatch be (DropTable t)
                | None \<Rightarrow> ([], Rejected err)))
      | Rejected e \<Rightarrow> ([], Pending)
      | Pending \<Rightarrow> ([], Pending))"

definition execute ::
  "backend \<Rightarrow> (string \<Rightarrow> error + statement) \<Rightarrow> string \<Rightarrow> call list \<times> result promise" where
  "execute be parse sql = runSQL be parse sql"

section \<open>Notions for the statements of the properties\<close>



text \<open>A backend that holds the given tables and accepts every call.\<close>

definition memory_backend :: "(string \<times> (string \<times> row) list) list \<Rightarrow> backend" where
  "memory_backend tables =
     \<lparr>ready = Resolved (JBool True),
      load = (\<lambda>t. case map_of tables t of Some rows \<Rightarrow> Resolved rows | None \<Rightarrow> Resolved []),
      store = (\<lambda>t i r. case i of Some k \<Rightarrow> Resolved (JStr k) | None \<Rightarrow> Resolved (JNum 0)),
      remove = (\<lambda>t i. Resolved (JStr i)),
      create = (\<lambda>t d. Resolved (JBool True)),
      drop_table = (\<lambda>t. Resolved (JBool True))\<rparr>"

text \<open>The operator \<^verbatim>\<open>&&\<close> on two values.\<close>

definition js_and :: "jsval \<Rightarrow> jsval \<Rightarrow> jsval" where
  "js_and a b = (if truthy a then b else a)"

text \<open>The ON predicate on the merged row of a pair: whether its evaluation returns, and
  whether what it returns is truthy.\<close>

definition on_defined :: "expr option \<Rightarrow> bool \<Rightarrow> row \<Rightarrow> row \<Rightarrow> bool" where
  "on_defined query namespace d s =
     (case doWhere query (merge_rows d s) namespace of Inl e \<Rightarrow> False | Inr t \<Rightarrow> True)"

definition on_matches :: "expr option \<Rightarrow> bool \<Rightarrow> row \<Rightarrow> row \<Rightarrow> bool" where
  "on_matches query namespace d s =
     (case doWhere query (merge_rows d s) namespace of Inl e \<Rightarrow> False | Inr t \<Rightarrow> truthy t)"



text \<open>Example statements and tables: \<open>SELECT * FROM t\<close>, the same ordered by \<open>SUM(a)\<close>,
  and a table \<open>t\<close> of one, two and five rows.\<close>

definition select_all :: "string \<Rightarrow> select_stmt" where
  "select_all t =
     \<lparr>sel_columns = Star, sel_from = [\<lparr>from_table = t, from_join = None, from_on = None\<rparr>],
      sel_where = None, sel_groupby = None, sel_orderby = None, sel_limit = None\<rparr>"

definition order_by_sum :: select_stmt where
  "order_by_sum = (select_all ''t'')\<lparr>sel_orderby :=
      Some [\<lparr>ord_expr = AggrFunc ''SUM'' (ColumnRef None ''a''), ord_type = ''ASC''\<rparr>]\<rparr>"

definition one_row :: "(string \<times> (string \<times> row) list) list" where
  "one_row = [(''t'', [(''0'', [(''a'', JNum 1)])])]"

definition two_rows :: "(string \<times> (string \<times> row) list) list" where
  "two_rows = [(''t'', [(''0'', [(''a'', JNum 1)]), (''1'', [(''a'', JNum 2)])])]"

definition five_rows :: "(string \<times> (string \<times> row) list) list" where
  "five_rows = [(''t'', [(''0'', [(''a'', JNum 10)]), (''1'', [(''a'', JNum 11)]),
                         (''2'', [(''a'', JNum 12)]), (''3'', [(''a'', JNum 13)]),
                         (''4'', [(''a'', JNum 14)])])]"

section \<open>The LIKE operator and its specification\<close>

text \<open>What the LIKE operator computes on a pattern and a value.\<close>

definition like_test :: "string \<Rightarrow> string \<Rightarrow> bool option" where
  "like_test like s = map_option (\<lambda>re. rx_test re s) (like2RegExp like)"

text \<open>
  The pattern language as the specification words it: a pattern is a sequence of tokens,
  \<open>LAny\<close> for an unescaped \<open>%\<close>, \<open>LOne\<close> for an unescaped \<open>_\<close>, and \<open>LChar c\<close> for a
  character that stands for itself, among them a \<open>%\<close> or \<open>_\<close> preceded by a backslash.
  \<open>spec_tokens\<close> reads a pattern; it has no reading for a backslash before another
  character, nor for a character that the compiler leaves unescaped though it is special
  in a regular expression (\<open>ordinary\<close> excludes them).
\<close>

datatype like_tok = LChar char | LAny | LOne

definition ordinary :: "char \<Rightarrow> bool" where
  "ordinary c = (c \<notin> set (CHR 0x5C # ''+()[]{}|''))"

fun spec_tokens :: "string \<Rightarrow> like_tok list option" where
  "spec_tokens [] = Some []"
| "spec_tokens (c # cs) =
     (if c = CHR 0x5C then
        (case cs of
           [] \<Rightarrow> None
         | d # ds \<Rightarrow> if d = CHR ''%'' \<or> d = CHR ''_''
                    then map_option ((#) (LChar d)) (spec_tokens ds) else None)
      else if c = CHR ''%'' then map_option ((#) LAny) (spec_tokens cs)
      else if c = CHR ''_'' then map_option ((#) LOne) (spec_tokens cs)
      else if ordinary c then map_option ((#) (LChar c)) (spec_tokens cs)
      else None)"

text \<open>
  A whole value against the tokens: \<open>LAny\<close> takes zero or more characters, \<open>LOne\<close>
  exactly one, \<open>LChar c\<close> the character \<open>c\<close>. With \<open>any\<close> set a wildcard takes any
  character, as the specification says; without it, any character but a line terminator.
\<close>

fun spec_match :: "like_tok list \<Rightarrow> bool \<Rightarrow> string \<Rightarrow> bool" where
  "spec_match [] any s = (s = [])"
| "spec_match (LChar c # ts) any [] = False"
| "spec_match (LChar c # ts) any (d # ds) = (c = d \<and> spec_match ts any ds)"
| "spec_match (LOne # ts) any [] = False"
| "spec_match (LOne # ts) any (d # ds) = ((any \<or> \<not> line_terminator d) \<and> spec_match ts any ds)"
| "spec_match (LAny # ts) any [] = spec_match ts any []"
| "spec_match (LAny # ts) any (d # ds) =
     (spec_match ts any (d # ds) \<or> ((any \<or> \<not> line_terminator d) \<and> spec_match (LAny # ts) any ds))"

text \<open>The text of a token in a pattern, and in the expression source after each of the
  first three passes of the compiler.\<close>

fun tok_text :: "like_tok \<Rightarrow> string" where
  "tok_text (LChar c) = (if c = CHR ''%'' \<or> c = CHR ''_'' then [CHR 0x5C, c] else [c])"
| "tok_text LAny = ''%''"
| "tok_text LOne = ''_''"

fun tok_ok :: "like_tok \<Rightarrow> bool" where
  "tok_ok (LChar c) = ordinary c"
| "tok_ok LAny = True"
| "tok_ok LOne = True"

definition escaped_char :: "char \<Rightarrow> bool" where
  "escaped_char c = (c \<in> set ''.*?$^%_'')"

fun enc1 :: "like_tok \<Rightarrow> string" where
  "enc1 (LChar c) = (if escaped_char c then [CHR 0x5C, c] else [c])"
| "enc1 LAny = ''%''"
| "enc1 LOne = ''_''"

fun enc2 :: "like_tok \<Rightarrow> string" where
  "enc2 (LChar c) = (if escaped_char c then [CHR 0x5C, c] else [c])"
| "enc2 LAny = ''.*?''"
| "enc2 LOne = ''_''"

fun enc3 :: "like_tok \<Rightarrow> string" where
  "enc3 (LChar c) = (if escaped_char c then [CHR 0x5C, c] else [c])"
| "enc3 LAny = ''.*?''"
| "enc3 LOne = ''.''"

fun rx_item_of :: "like_tok \<Rightarrow> rx_item" where
  "rx_item_of (LChar c) = RLit c"
| "rx_item_of LAny = RStar"
| "rx_item_of LOne = RAny"

text \<open>The chunks that stand for a token in a compiled source: as the third pass leaves it, or
  an escaped wildcard with its backslash stripped by the last two passes.\<close>

definition enc_ok :: "like_tok \<Rightarrow> string \<Rightarrow> bool" where
  "enc_ok t chunk =
     (tok_ok t \<and> (chunk = enc3 t \<or> (t = LChar (CHR ''%'') \<and> chunk = ''%'')
                    \<or> (t = LChar (CHR ''_'') \<and> chunk = ''_'')))"

section \<open>The grouped sum and its specification\<close>








section \<open>Verified properties\<close>

subsection \<open>CREATE TABLE\<close>












subsection \<open>The predicate evaluator\<close>

text \<open>
  Claim C2. On every row and every pair of operands, a binary expression with operator OR
  evaluates to exactly what the same expression with operator AND evaluates to: the
  conjunction \<^verbatim>\<open>&&\<close> of the two resolved operand values, where the right operand is
  resolved only when the left value is truthy.
\<close>

theorem doWhere_or_is_and:
  "doWhere (Some (BinaryExpr ''OR'' left right)) row namespace =
     doWhere (Some (BinaryExpr ''AND'' left right)) row namespace \<and>
   doWhere (Some (BinaryExpr ''OR'' left right)) row namespace =
     (case getVal left row namespace of
        Inl e \<Rightarrow> Inl e
      | Inr a \<Rightarrow>
          if truthy a
          then (case getVal right row namespace of Inl e \<Rightarrow> Inl e | Inr b \<Rightarrow> Inr (js_and a b))
          else Inr a)"
  by (simp add: doWhere_def js_and_def split: sum.splits)

subsection \<open>The join engine\<close>

lemma join_src_spec:
  assumes "\<forall>x \<in> set srcRows. on_defined q ns d (snd x)"
  shows "join_src q ns d srcRows rows used =
           Inr (rows @ map (merge_rows d) (filter (on_matches q ns d) (map snd srcRows)),
                used \<or> (\<exists>x \<in> set srcRows. on_matches q ns d (snd x)),
                map (\<lambda>x. (fst x \<or> on_matches q ns d (snd x), snd x)) srcRows)"
  using assms
proof (induction srcRows arbitrary: rows used)
  case Nil
  then show ?case by simp
next
  case (Cons x srcRows)
  obtain u s where x: "x = (u, s)" by (cases x)
  from Cons.prems x obtain t where t: "doWhere q (merge_rows d s) ns = Inr t"
    by (auto simp: on_defined_def split: sum.splits)
  have rest: "\<forall>x \<in> set srcRows. on_defined q ns d (snd x)" using Cons.prems by simp
  show ?case
  proof (cases "truthy t")
    case True
    then have m: "on_matches q ns d s" using t by (simp add: on_matches_def)
    show ?thesis using x t True m Cons.IH [OF rest, of "rows @ [merge_rows d s]" True]
      by simp
  next
    case False
    then have m: "\<not> on_matches q ns d s" using t by (simp add: on_matches_def)
    show ?thesis using x t False m Cons.IH [OF rest, of rows used]
      by simp
  qed
qed

lemma join_dest_spec:
  assumes "\<forall>x \<in> set destRows. \<forall>y \<in> set srcRows. on_defined q ns (snd x) (snd y)"
  shows "join_dest q ns destRows srcRows rows =
           Inr (rows @ concat (map (\<lambda>d. map (merge_rows d)
                                  (filter (on_matches q ns d) (map snd srcRows)))
                             (map snd destRows)),
                map (\<lambda>x. (fst x \<or> (\<exists>y \<in> set srcRows. on_matches q ns (snd x) (snd y)), snd x))
                  destRows,
                map (\<lambda>y. (fst y \<or> (\<exists>x \<in> set destRows. on_matches q ns (snd x) (snd y)), snd y))
                  srcRows)"
  using assms
proof (induction destRows arbitrary: rows srcRows)
  case Nil
  then show ?case by simp
next
  case (Cons x destRows)
  obtain u d where x: "x = (u, d)" by (cases x)
  define src' where "src' = map (\<lambda>y. (fst y \<or> on_matches q ns d (snd y), snd y)) srcRows"
  have inner: "join_src q ns d srcRows rows u =
           Inr (rows @ map (merge_rows d) (filter (on_matches q ns d) (map snd srcRows)),
                u \<or> (\<exists>y \<in> set srcRows. on_matches q ns d (snd y)), src')"
    unfolding src'_def using Cons.prems x by (intro join_src_spec) simp
  have snd': "map snd src' = map snd srcRows" by (simp add: src'_def comp_def)
  have rest: "\<forall>x \<in> set destRows. \<forall>y \<in> set src'. on_defined q ns (snd x) (snd y)"
    using Cons.prems by (auto simp: src'_def)
  have c2: "map (\<lambda>x. (fst x \<or> (\<exists>y \<in> set src'. on_matches q ns (snd x) (snd y)), snd x)) destRows
        = map (\<lambda>x. (fst x \<or> (\<exists>y \<in> set srcRows. on_matches q ns (snd x) (snd y)), snd x)) destRows"
    by (auto simp: src'_def)
  have c3: "map (\<lambda>y. (fst y \<or> (\<exists>x \<in> set destRows. on_matches q ns (snd x) (snd y)), snd y)) src'
        = map (\<lambda>y. (fst y \<or> (\<exists>x \<in> set (x # destRows). on_matches q ns (snd x) (snd y)), snd y)) srcRows"
    using x by (auto simp: src'_def)
  have IH: "join_dest q ns destRows src' rows' =
           Inr (rows' @ concat (map (\<lambda>d. map (merge_rows d)
                                  (filter (on_matches q ns d) (map snd srcRows)))
                             (map snd destRows)),
                map (\<lambda>x. (fst x \<or> (\<exists>y \<in> set srcRows. on_matches q ns (snd x) (snd y)), snd x))
                  destRows,
                map (\<lambda>y. (fst y \<or> (\<exists>x \<in> set (x # destRows). on_matches q ns (snd x) (snd y)), snd y))
                  srcRows)" for rows'
    using Cons.IH [OF rest, of rows'] unfolding snd' c2 c3 .
  show ?case
    unfolding x join_dest.simps inner using IH x by simp
qed

lemma map_of_row_set: "map_of (row_set r k v) = (map_of r)(k \<mapsto> v)"
  by (induction r) (auto simp: fun_eq_iff)

lemma map_of_foldl_row_set:
  "map_of (foldl (\<lambda>bigrow (k, v). row_set bigrow k v) r kvs) = map_of r ++ map_of (rev kvs)"
proof (induction kvs arbitrary: r)
  case Nil
  then show ?case by simp
next
  case (Cons kv kvs)
  obtain k v where kv: "kv = (k, v)" by (cases kv)
  have "map_of (foldl (\<lambda>bigrow (k, v). row_set bigrow k v) r (kv # kvs)) =
          map_of (row_set r k v) ++ map_of (rev kvs)"
    using Cons.IH [of "row_set r k v"] kv by simp
  also have "\<dots> = (map_of r)(k \<mapsto> v) ++ map_of (rev kvs)"
    by (simp only: map_of_row_set)
  also have "\<dots> = map_of r ++ ([k \<mapsto> v] ++ map_of (rev kvs))"
    by (auto simp: fun_eq_iff map_add_def split: option.splits)
  also have "\<dots> = map_of r ++ map_of (rev (kv # kvs))"
    using kv by simp
  finally show ?case .
qed

lemma map_of_merge_rows: "map_of (merge_rows d s) = map_of (rev d) ++ map_of (rev s)"
  by (simp add: merge_rows_def map_of_foldl_row_set)

text \<open>
  Claim C3. When the ON predicate returns on every pair, the join is: for each destination
  row in order, the merged rows of the pairs with the source rows on which the predicate
  holds; then, when \<open>includeAllDest\<close> is set, the destination rows that matched no source
  row, as they are; then the same for the source rows under \<open>includeAllSrc\<close>. The merged
  row has the fields of the destination row overridden by those of the source row (\<open>rev\<close>:
  of two bindings of one key the later one counts; an object has one). On the namespaced
  rows of the specification, INNER JOIN gives the one merged row, and LEFT JOIN with the
  unmatched destination row \<open>{dest.id: 2}\<close> gives that row after it, without source keys.
\<close>

theorem join_spec:
  assumes "\<forall>d \<in> set dest. \<forall>s \<in> set src. on_defined q ns d s"
  shows "join dest src q includeAllDest includeAllSrc ns =
           Inr (concat (map (\<lambda>d. map (merge_rows d) (filter (on_matches q ns d) src)) dest)
                @ (if includeAllDest
                   then filter (\<lambda>d. \<not> (\<exists>s \<in> set src. on_matches q ns d s)) dest else [])
                @ (if includeAllSrc
                   then filter (\<lambda>s. \<not> (\<exists>d \<in> set dest. on_matches q ns d s)) src else []))
         \<and> map_of (merge_rows destRow srcRow) = map_of (rev destRow) ++ map_of (rev srcRow)
         \<and> join [[(''dest.id'', JNum 1)]] [[(''src.id'', JNum 1), (''src.x'', JNum 2)]]
              (Some (BinaryExpr ''='' (ColumnRef (Some ''dest'') ''id'')
                                      (ColumnRef (Some ''src'') ''id'')))
              False False True
            = Inr [[(''dest.id'', JNum 1), (''src.id'', JNum 1), (''src.x'', JNum 2)]]
         \<and> join [[(''dest.id'', JNum 1)], [(''dest.id'', JNum 2)]]
              [[(''src.id'', JNum 1), (''src.x'', JNum 2)]]
              (Some (BinaryExpr ''='' (ColumnRef (Some ''dest'') ''id'')
                                      (ColumnRef (Some ''src'') ''id'')))
              True False True
            = Inr [[(''dest.id'', JNum 1), (''src.id'', JNum 1), (''src.x'', JNum 2)],
                   [(''dest.id'', JNum 2)]]"
proof (intro conjI)
  have "\<forall>x \<in> set (map (\<lambda>row. (False, row)) dest). \<forall>y \<in> set (map (\<lambda>row. (False, row)) src).
          on_defined q ns (snd x) (snd y)"
    using assms by simp
  from join_dest_spec [OF this, of "[]"]
  show "join dest src q includeAllDest includeAllSrc ns =
           Inr (concat (map (\<lambda>d. map (merge_rows d) (filter (on_matches q ns d) src)) dest)
                @ (if includeAllDest
                   then filter (\<lambda>d. \<not> (\<exists>s \<in> set src. on_matches q ns d s)) dest else [])
                @ (if includeAllSrc
                   then filter (\<lambda>s. \<not> (\<exists>d \<in> set dest. on_matches q ns d s)) src else []))"
    by (simp add: join_def comp_def filter_map)
next
  show "map_of (merge_rows destRow srcRow) = map_of (rev destRow) ++ map_of (rev srcRow)"
    by (rule map_of_merge_rows)
next
  show "join [[(''dest.id'', JNum 1)]] [[(''src.id'', JNum 1), (''src.x'', JNum 2)]]
              (Some (BinaryExpr ''='' (ColumnRef (Some ''dest'') ''id'')
                                      (ColumnRef (Some ''src'') ''id'')))
              False False True
            = Inr [[(''dest.id'', JNum 1), (''src.id'', JNum 1), (''src.x'', JNum 2)]]"
    by code_simp
next
  show "join [[(''dest.id'', JNum 1)], [(''dest.id'', JNum 2)]]
              [[(''src.id'', JNum 1), (''src.x'', JNum 2)]]
              (Some (BinaryExpr ''='' (ColumnRef (Some ''dest'') ''id'')
                                      (ColumnRef (Some ''src'') ''id'')))
              True False True
            = Inr [[(''dest.id'', JNum 1), (''src.id'', JNum 1), (''src.x'', JNum 2)],
                   [(''dest.id'', JNum 2)]]"
    by code_simp
qed

theorem join_spec_witness:
  "join [[(''dest.id'', JNum 1)], [(''dest.id'', JNum 2)]]
     [[(''src.id'', JNum 1), (''src.x'', JNum 2)], [(''src.id'', JNum 3), (''src.x'', JNum 4)]]
     (Some (BinaryExpr ''='' (ColumnRef (Some ''dest'') ''id'') (ColumnRef (Some ''src'') ''id'')))
     True True True
   = Inr [[(''dest.id'', JNum 1), (''src.id'', JNum 1), (''src.x'', JNum 2)],
          [(''dest.id'', JNum 2)],
          [(''src.id'', JNum 3), (''src.x'', JNum 4)]]"
proof -
  let ?dest = "[[(''dest.id'', JNum 1)], [(''dest.id'', JNum 2)]]"
  let ?src = "[[(''src.id'', JNum 1), (''src.x'', JNum 2)],
               [(''src.id'', JNum 3), (''src.x'', JNum 4)]]"
  let ?q = "Some (BinaryExpr ''='' (ColumnRef (Some ''dest'') ''id'')
                                   (ColumnRef (Some ''src'') ''id''))"
  have h: "\<forall>d \<in> set ?dest. \<forall>s \<in> set ?src. on_defined ?q True d s"
    by code_simp
  have e: "concat (map (\<lambda>d. map (merge_rows d) (filter (on_matches ?q True d) ?src)) ?dest)
             @ (if True then filter (\<lambda>d. \<not> (\<exists>s \<in> set ?src. on_matches ?q True d s)) ?dest else [])
             @ (if True then filter (\<lambda>s. \<not> (\<exists>d \<in> set ?dest. on_matches ?q True d s)) ?src else [])
           = [[(''dest.id'', JNum 1), (''src.id'', JNum 1), (''src.x'', JNum 2)],
              [(''dest.id'', JNum 2)],
              [(''src.id'', JNum 3), (''src.x'', JNum 4)]]"
    by code_simp
  from join_spec [OF h, of True True, THEN conjunct1]
  show ?thesis unfolding e .
qed

subsection \<open>The projector and aggregator\<close>



lemma findIndex_none: "findIndex p xs = None \<Longrightarrow> \<forall>x \<in> set xs. \<not> p x"
  by (induction xs) (auto split: if_splits)





























subsection \<open>SELECT and the dispatcher\<close>

lemma doSelect_load_rejected:
  "snd (doSelect (be\<lparr>load := \<lambda>t. Rejected e\<rparr>) s) = Pending"
proof (cases "sel_from s")
  case Nil
  then show ?thesis by (simp add: doSelect_def promise_all_def doSelect_body_def)
next
  case (Cons f fs)
  then show ?thesis by (simp add: doSelect_def promise_all_def)
qed

text \<open>
  Claim C1, on the code. A select whose loads are rejected with \<open>e\<close> does not reject the
  promise of \<^verbatim>\<open>execute\<close> with \<open>e\<close>: the promise is never settled, whatever the statement
  selects. So it is for \<open>SELECT * FROM t\<close> on a backend whose \<^verbatim>\<open>load\<close> is rejected, and for
  a CREATE TABLE on a backend whose \<^verbatim>\<open>create\<close> is rejected.
\<close>

theorem execute_load_rejection:
  "snd (execute (be\<lparr>ready := Resolved r, load := \<lambda>t. Rejected e\<rparr>) (\<lambda>sql. Inr (Select s)) sql)
     = Pending
   \<and> execute ((memory_backend [])\<lparr>load := \<lambda>t. Rejected (External ''load failed'')\<rparr>)
        (\<lambda>sql. Inr (Select (select_all ''t''))) ''SELECT * FROM t''
     = ([Load ''t''], Pending)
   \<and> execute ((memory_backend [])\<lparr>create := \<lambda>t d. Rejected (External ''create failed'')\<rparr>)
        (\<lambda>sql. Inr (CreateTable \<lparr>cre_table = ''t'', cre_columns =
            [\<lparr>col_name = ''a'', col_type = ''INTEGER'', col_args = []\<rparr>]\<rparr>))
        ''CREATE TABLE t(a INTEGER)''
     = ([Create ''t'' [\<lparr>def_name = ''a'', def_index = 0, def_type = Some ''integer'',
                         def_pad = None, def_length = None\<rparr>]], Pending)"
proof (intro conjI)
  have "be\<lparr>ready := Resolved r, load := \<lambda>t. Rejected e\<rparr>
          = (be\<lparr>ready := Resolved r\<rparr>)\<lparr>load := \<lambda>t. Rejected e\<rparr>" by simp
  then show "snd (execute (be\<lparr>ready := Resolved r, load := \<lambda>t. Rejected e\<rparr>)
                (\<lambda>sql. Inr (Select s)) sql) = Pending"
    using doSelect_load_rejected [where be = "be\<lparr>ready := Resolved r\<rparr>" and e = e and s = s]
    by (simp add: execute_def runSQL_def dispatch_def)
next
  show "execute ((memory_backend [])\<lparr>load := \<lambda>t. Rejected (External ''load failed'')\<rparr>)
        (\<lambda>sql. Inr (Select (select_all ''t''))) ''SELECT * FROM t''
     = ([Load ''t''], Pending)"
    by (simp add: execute_def runSQL_def dispatch_def memory_backend_def select_all_def
        doSelect_def promise_all_def)
next
  show "execute ((memory_backend [])\<lparr>create := \<lambda>t d. Rejected (External ''create failed'')\<rparr>)
        (\<lambda>sql. Inr (CreateTable \<lparr>cre_table = ''t'', cre_columns =
            [\<lparr>col_name = ''a'', col_type = ''INTEGER'', col_args = []\<rparr>]\<rparr>))
        ''CREATE TABLE t(a INTEGER)''
     = ([Create ''t'' [\<lparr>def_name = ''a'', def_index = 0, def_type = Some ''integer'',
                         def_pad = None, def_length = None\<rparr>]], Pending)"
    by (simp add: execute_def runSQL_def dispatch_def memory_backend_def doCreate_def
        doCreate_column_def toUpperCase_def upper_char_def)
qed

text \<open>
  Claim C5, on the code. The check of the ORDER BY keys stands in the comparator, which
  \<^verbatim>\<open>sort\<close> calls on no array of fewer than two rows: \<open>SELECT * FROM t ORDER BY SUM(a)\<close> on
  a table of one row resolves with that row and no error. On a table of two rows the
  comparator throws OrderByUnsupported inside the callback of the loads, and the promise
  of \<^verbatim>\<open>execute\<close> is never settled.
\<close>

theorem order_by_aggregate_one_row:
  "execute (memory_backend one_row) (\<lambda>sql. Inr (Select order_by_sum))
       ''SELECT * FROM t ORDER BY SUM(a)''
     = ([Load ''t''], Resolved (Rows [[(''a'', JNum 1)]]))
   \<and> sort_by cmp [] = Inr [] \<and> sort_by cmp [x] = Inr [x]
   \<and> doSelect_body order_by_sum (map snd two_rows) = Inl OrderByUnsupported
   \<and> execute (memory_backend two_rows) (\<lambda>sql. Inr (Select order_by_sum))
       ''SELECT * FROM t ORDER BY SUM(a)''
     = ([Load ''t''], Pending)"
proof (intro conjI)
  show "execute (memory_backend one_row) (\<lambda>sql. Inr (Select order_by_sum))
       ''SELECT * FROM t ORDER BY SUM(a)''
     = ([Load ''t''], Resolved (Rows [[(''a'', JNum 1)]]))"
    by code_simp
next
  show "sort_by cmp [] = Inr []" by simp
next
  show "sort_by cmp [x] = Inr [x]" by simp
next
  show "doSelect_body order_by_sum (map snd two_rows) = Inl OrderByUnsupported"
    by code_simp
next
  show "execute (memory_backend two_rows) (\<lambda>sql. Inr (Select order_by_sum))
       ''SELECT * FROM t ORDER BY SUM(a)''
     = ([Load ''t''], Pending)"
    by code_simp
qed

lemma slice_offset_count:
  "0 \<le> offs \<Longrightarrow> 0 \<le> len \<Longrightarrow>
     slice xs (JNum offs) (js_add (JNum offs) (JNum len)) = take (nat len) (drop (nat offs) xs)"
  by (auto simp: slice_def slice_index_def js_add_def Let_def min_def nat_add_distrib)

text \<open>
  Claim C6, on the code. A LIMIT list of one entry makes the callback of the loads throw
  InvalidLimit, and since that chain has no rejection handler the promise of
  \<^verbatim>\<open>execute\<close> is never settled: the caller receives no InvalidLimit error. With the list
  \<open>[1, 2]\<close> on five ordered rows the statement resolves with the rows at positions 1 and 2.
\<close>

theorem invalid_limit_never_settles:
  "doSelect_body ((select_all ''t'')\<lparr>sel_limit := Some [JNum 2]\<rparr>) (map snd five_rows)
     = Inl InvalidLimit
   \<and> execute (memory_backend five_rows)
        (\<lambda>sql. Inr (Select ((select_all ''t'')\<lparr>sel_limit := Some [JNum 2]\<rparr>)))
        ''SELECT * FROM t LIMIT 2''
     = ([Load ''t''], Pending)
   \<and> execute (memory_backend five_rows)
        (\<lambda>sql. Inr (Select ((select_all ''t'')\<lparr>
             sel_orderby := Some [\<lparr>ord_expr = ColumnRef None ''a'', ord_type = ''ASC''\<rparr>],
             sel_limit := Some [JNum 1, JNum 2]\<rparr>)))
        ''SELECT * FROM t ORDER BY a LIMIT 1, 2''
     = ([Load ''t''], Resolved (Rows [[(''a'', JNum 11)], [(''a'', JNum 12)]]))"
proof (intro conjI)
  show "doSelect_body ((select_all ''t'')\<lparr>sel_limit := Some [JNum 2]\<rparr>) (map snd five_rows)
     = Inl InvalidLimit"
    by code_simp
next
  show "execute (memory_backend five_rows)
        (\<lambda>sql. Inr (Select ((select_all ''t'')\<lparr>sel_limit := Some [JNum 2]\<rparr>)))
        ''SELECT * FROM t LIMIT 2''
     = ([Load ''t''], Pending)"
    by code_simp
next
  show "execute (memory_backend five_rows)
        (\<lambda>sql. Inr (Select ((select_all ''t'')\<lparr>
             sel_orderby := Some [\<lparr>ord_expr = ColumnRef None ''a'', ord_type = ''ASC''\<rparr>],
             sel_limit := Some [JNum 1, JNum 2]\<rparr>)))
        ''SELECT * FROM t ORDER BY a LIMIT 1, 2''
     = ([Load ''t''], Resolved (Rows [[(''a'', JNum 11)], [(''a'', JNum 12)]]))"
    by code_simp
qed

subsection \<open>The LIKE pattern compiler\<close>

lemma like_tokens_src:
  "spec_tokens p = Some ts \<Longrightarrow> p = concat (map tok_text ts) \<and> list_all tok_ok ts"
proof (induction p arbitrary: ts rule: spec_tokens.induct)
  case 1
  then show ?case by simp
next
  case (2 c cs)
  show ?case
  proof (cases "c = CHR 0x5C")
    case True
    with "2.prems" obtain d ds where cs: "cs = d # ds" by (cases cs) auto
    with True "2.prems" have d: "d = CHR ''%'' \<or> d = CHR ''_''" by (auto split: if_splits)
    with True cs "2.prems" obtain ts' where ts': "spec_tokens ds = Some ts'" and ts: "ts = LChar d # ts'"
      by auto
    from "2.IH"(1) [OF True cs d ts'] have "ds = concat (map tok_text ts') \<and> list_all tok_ok ts'" .
    with True cs d ts show ?thesis by (auto simp: ordinary_def)
  next
    case False
    note nb = False
    show ?thesis
    proof (cases "c = CHR ''%''")
      case True
      with nb "2.prems" obtain ts' where ts': "spec_tokens cs = Some ts'" and ts: "ts = LAny # ts'"
        by auto
      from "2.IH"(2) [OF nb True ts'] ts True show ?thesis by simp
    next
      case False
      note np = False
      show ?thesis
      proof (cases "c = CHR ''_''")
        case True
        with nb np "2.prems" obtain ts' where ts': "spec_tokens cs = Some ts'" and ts: "ts = LOne # ts'"
          by auto
        from "2.IH"(3) [OF nb np True ts'] ts True show ?thesis by simp
      next
        case False
        with nb np "2.prems" have ord: "ordinary c" by (auto split: if_splits)
        with nb np False "2.prems" obtain ts' where ts': "spec_tokens cs = Some ts'"
          and ts: "ts = LChar c # ts'"
          by auto
        from "2.IH"(4) [OF nb np False ord ts'] ts np False ord show ?thesis by simp
      qed
    qed
  qed
qed

lemma escape_meta_append: "escape_meta (a @ b) = escape_meta a @ escape_meta b"
  by (induction a) simp_all

lemma escape_meta_src: "tok_ok t \<Longrightarrow> escape_meta (tok_text t) = enc1 t"
  by (cases t) (auto simp: ordinary_def escaped_char_def)

lemma escape_meta_tokens:
  "list_all tok_ok ts \<Longrightarrow> escape_meta (concat (map tok_text ts)) = concat (map enc1 ts)"
  by (induction ts) (simp_all add: escape_meta_append escape_meta_src)

lemma replace_wild_other:
  "c \<noteq> CHR 0x5C \<Longrightarrow> c \<noteq> w \<Longrightarrow> replace_wild w f (c # rest) = c # replace_wild w f rest"
  by (cases rest) simp_all

lemma replace_wild_backslash_other:
  "d \<noteq> w \<Longrightarrow> w \<noteq> CHR 0x5C \<Longrightarrow>
     replace_wild w f (CHR 0x5C # d # rest) = CHR 0x5C # replace_wild w f (d # rest)"
  by simp

lemma replace_wild_escaped:
  "replace_wild w f (CHR 0x5C # w # rest) = f [CHR 0x5C, w] @ replace_wild w f rest"
  by simp

lemma replace_wild_wild:
  "w \<noteq> CHR 0x5C \<Longrightarrow> replace_wild w f (w # rest) = f [w] @ replace_wild w f rest"
  by (cases rest) simp_all

lemma percent_token:
  "tok_ok t \<Longrightarrow>
     replace_wild (CHR ''%'') (replaceIfNotPrecededBy [CHR 0x5C] ''.*?'') (enc1 t @ rest)
       = enc2 t @ replace_wild (CHR ''%'') (replaceIfNotPrecededBy [CHR 0x5C] ''.*?'') rest"
proof (cases t)
  case (LChar c)
  assume "tok_ok t"
  with LChar have nb: "c \<noteq> CHR 0x5C" by (auto simp: ordinary_def)
  show ?thesis
  proof (cases "c = CHR ''%''")
    case True
    with LChar show ?thesis by (simp add: replaceIfNotPrecededBy_def escaped_char_def)
  next
    case False
    with LChar nb show ?thesis
      by (simp add: replace_wild_other replace_wild_backslash_other escaped_char_def
            del: replace_wild.simps)
  qed
next
  case LAny
  then show ?thesis by (simp add: replace_wild_wild replaceIfNotPrecededBy_def del: replace_wild.simps)
next
  case LOne
  then show ?thesis by (simp add: replace_wild_other del: replace_wild.simps)
qed

lemma percent_tokens:
  "list_all tok_ok ts \<Longrightarrow>
     replace_wild (CHR ''%'') (replaceIfNotPrecededBy [CHR 0x5C] ''.*?'') (concat (map enc1 ts))
       = concat (map enc2 ts)"
proof (induction ts)
  case Nil
  then show ?case by simp
next
  case (Cons t ts)
  then show ?case using percent_token [of t "concat (map enc1 ts)"] by simp
qed

lemma underscore_token:
  "tok_ok t \<Longrightarrow>
     replace_wild (CHR ''_'') (replaceIfNotPrecededBy [CHR 0x5C] ''.'') (enc2 t @ rest)
       = enc3 t @ replace_wild (CHR ''_'') (replaceIfNotPrecededBy [CHR 0x5C] ''.'') rest"
proof (cases t)
  case (LChar c)
  assume "tok_ok t"
  with LChar have nb: "c \<noteq> CHR 0x5C" by (auto simp: ordinary_def)
  show ?thesis
  proof (cases "c = CHR ''_''")
    case True
    with LChar show ?thesis by (simp add: replaceIfNotPrecededBy_def escaped_char_def)
  next
    case False
    with LChar nb show ?thesis
      by (simp add: replace_wild_other replace_wild_backslash_other escaped_char_def
            del: replace_wild.simps)
  qed
next
  case LAny
  then show ?thesis by (simp add: replace_wild_other del: replace_wild.simps)
next
  case LOne
  then show ?thesis by (simp add: replace_wild_wild replaceIfNotPrecededBy_def del: replace_wild.simps)
qed

lemma underscore_tokens:
  "list_all tok_ok ts \<Longrightarrow>
     replace_wild (CHR ''_'') (replaceIfNotPrecededBy [CHR 0x5C] ''.'') (concat (map enc2 ts))
       = concat (map enc3 ts)"
proof (induction ts)
  case Nil
  then show ?case by simp
next
  case (Cons t ts)
  then show ?case using underscore_token [of t "concat (map enc2 ts)"] by simp
qed


lemma enc_ok_cases:
  assumes "enc_ok t chunk"
  obtains (escaped) c where "t = LChar c" "escaped_char c" "chunk = [CHR 0x5C, c]"
  | (plain) c where "t = LChar c" "ordinary c" "\<not> escaped_char c" "chunk = [c]"
  | (bare) c where "t = LChar c" "c = CHR ''%'' \<or> c = CHR ''_''" "chunk = [c]"
  | (star) "t = LAny" "chunk = ''.*?''"
  | (dot) "t = LOne" "chunk = ''.''"
proof (cases t)
  case (LChar c)
  from assms LChar have ok: "ordinary c"
    and chunk: "chunk = enc3 (LChar c) \<or> (c = CHR ''%'' \<and> chunk = ''%'')
                  \<or> (c = CHR ''_'' \<and> chunk = ''_'')"
    by (simp_all add: enc_ok_def)
  from chunk consider (a) "chunk = enc3 (LChar c)" | (b) "c = CHR ''%''" "chunk = ''%''"
    | (c) "c = CHR ''_''" "chunk = ''_''" by blast
  then show ?thesis
  proof cases
    case a
    show ?thesis
    proof (cases "escaped_char c")
      case True
      with a have "chunk = [CHR 0x5C, c]" by simp
      with LChar True show ?thesis by (rule escaped)
    next
      case False
      with a have "chunk = [c]" by simp
      with LChar ok False show ?thesis by (rule plain)
    qed
  next
    case b
    then have "c = CHR ''%'' \<or> c = CHR ''_''" and "chunk = [c]" by simp_all
    with LChar show ?thesis by (rule bare)
  next
    case c
    then have "c = CHR ''%'' \<or> c = CHR ''_''" and "chunk = [c]" by simp_all
    with LChar show ?thesis by (rule bare)
  qed
next
  case LAny
  with assms have "chunk = ''.*?''" by (simp add: enc_ok_def)
  with LAny show ?thesis by (rule star)
next
  case LOne
  with assms have "chunk = ''.''" by (simp add: enc_ok_def)
  with LOne show ?thesis by (rule dot)
qed

lemma replace_first_skip:
  assumes "enc_ok t chunk" and "w = CHR ''%'' \<or> w = CHR ''_''" and "chunk \<noteq> [CHR 0x5C, w]"
  shows "replace_first [CHR 0x5C, w] [w] (chunk @ rest)
           = chunk @ replace_first [CHR 0x5C, w] [w] rest"
  using assms(1)
proof (cases rule: enc_ok_cases)
  case (escaped c)
  with assms(3) have "c \<noteq> w" by auto
  moreover from escaped have "c \<noteq> CHR 0x5C" by (auto simp: escaped_char_def)
  ultimately show ?thesis using escaped by simp
next
  case (plain c)
  then have "c \<noteq> CHR 0x5C" by (auto simp: ordinary_def)
  with plain show ?thesis by simp
next
  case (bare c)
  then have "c \<noteq> CHR 0x5C" by auto
  with bare show ?thesis by simp
next
  case star
  then show ?thesis by simp
next
  case dot
  then show ?thesis by simp
qed

lemma replace_first_tokens:
  assumes "list_all2 enc_ok ts chunks" and "w = CHR ''%'' \<or> w = CHR ''_''"
  shows "\<exists>chunks'. list_all2 enc_ok ts chunks' \<and>
           replace_first [CHR 0x5C, w] [w] (concat chunks) = concat chunks'"
  using assms(1)
proof (induction rule: list_all2_induct)
  case Nil
  then show ?case by simp
next
  case (Cons t ts chunk chunks)
  show ?case
  proof (cases "chunk = [CHR 0x5C, w]")
    case True
    with Cons.hyps(1) assms(2) have t: "t = LChar w"
      by (cases rule: enc_ok_cases) auto
    with Cons.hyps(1) assms(2) have "enc_ok t [w]" by (auto simp: enc_ok_def)
    with Cons.hyps(2) have "list_all2 enc_ok (t # ts) ([w] # chunks)" by simp
    moreover have "replace_first [CHR 0x5C, w] [w] (concat (chunk # chunks)) = concat ([w] # chunks)"
      using True by simp
    ultimately show ?thesis by blast
  next
    case False
    from Cons.IH obtain chunks' where c': "list_all2 enc_ok ts chunks'"
      and r: "replace_first [CHR 0x5C, w] [w] (concat chunks) = concat chunks'" by blast
    have "replace_first [CHR 0x5C, w] [w] (concat (chunk # chunks)) = concat (chunk # chunks')"
      using replace_first_skip [OF Cons.hyps(1) assms(2) False, of "concat chunks"] r by simp
    moreover have "list_all2 enc_ok (t # ts) (chunk # chunks')" using Cons.hyps(1) c' by simp
    ultimately show ?thesis by blast
  qed
qed

lemma enc3_ok: "list_all tok_ok ts \<Longrightarrow> list_all2 enc_ok ts (map enc3 ts)"
  by (induction ts) (simp_all add: enc_ok_def)

lemma rx_parse_escape:
  "\<not> is_alnum d \<Longrightarrow>
     rx_parse (CHR 0x5C # d # ds) = map_option ((#) (RLit d)) (rx_parse ds)"
  by simp

lemma rx_parse_star:
  "rx_parse (CHR ''.'' # CHR ''*'' # CHR ''?'' # rest) = map_option ((#) RStar) (rx_parse rest)"
  by simp

lemma rx_parse_dot:
  "rest = [] \<or> hd rest \<noteq> CHR ''*'' \<Longrightarrow>
     rx_parse (CHR ''.'' # rest) = map_option ((#) RAny) (rx_parse rest)"
  by (cases rest) simp_all

lemma rx_parse_lit:
  "c \<noteq> CHR 0x5C \<Longrightarrow> c \<noteq> CHR ''.'' \<Longrightarrow> c \<noteq> CHR ''^'' \<Longrightarrow> c \<noteq> CHR ''$''
     \<Longrightarrow> c \<notin> set ''*+?()[]{}|''
     \<Longrightarrow> rx_parse (c # cs) = map_option ((#) (RLit c)) (rx_parse cs)"
  by simp

lemma escaped_char_not_alnum: "escaped_char c \<Longrightarrow> \<not> is_alnum c"
  by (auto simp: escaped_char_def is_alnum_def)

lemma plain_char_lit:
  assumes "ordinary c" and "\<not> escaped_char c"
  shows "c \<noteq> CHR 0x5C \<and> c \<noteq> CHR ''.'' \<and> c \<noteq> CHR ''^'' \<and> c \<noteq> CHR ''$''
           \<and> c \<notin> set ''*+?()[]{}|''"
  using assms by (simp add: ordinary_def escaped_char_def)

lemma rx_parse_chunk:
  assumes "enc_ok t chunk" and "rest = [] \<or> hd rest \<noteq> CHR ''*''"
  shows "rx_parse (chunk @ rest) = map_option ((#) (rx_item_of t)) (rx_parse rest)"
  using assms(1)
proof (cases rule: enc_ok_cases)
  case (escaped c)
  then show ?thesis
    by (simp add: rx_parse_escape escaped_char_not_alnum del: rx_parse.simps)
next
  case (plain c)
  from plain_char_lit [OF plain(2,3)] plain show ?thesis
    by (simp add: rx_parse_lit del: rx_parse.simps)
next
  case (bare c)
  from bare(2) have "c \<noteq> CHR 0x5C \<and> c \<noteq> CHR ''.'' \<and> c \<noteq> CHR ''^'' \<and> c \<noteq> CHR ''$''
           \<and> c \<notin> set ''*+?()[]{}|''" by auto
  with bare show ?thesis
    by (simp add: rx_parse_lit del: rx_parse.simps)
next
  case star
  then show ?thesis by (simp add: rx_parse_star del: rx_parse.simps)
next
  case dot
  with assms(2) show ?thesis by (simp add: rx_parse_dot del: rx_parse.simps)
qed

lemma chunk_head:
  assumes "enc_ok t chunk"
  shows "chunk \<noteq> [] \<and> hd chunk \<noteq> CHR ''*''"
  using assms
proof (cases rule: enc_ok_cases)
  case (plain c)
  then show ?thesis by (auto simp: escaped_char_def)
qed auto

lemma rx_parse_tokens:
  assumes "list_all2 enc_ok ts chunks"
  shows "rx_parse (concat chunks @ ''$'') = Some (map rx_item_of ts @ [REnd])"
  using assms
proof (induction rule: list_all2_induct)
  case Nil
  then show ?case by simp
next
  case (Cons t ts chunk chunks)
  have "concat chunks @ ''$'' = [] \<or> hd (concat chunks @ ''$'') \<noteq> CHR ''*''"
  proof (cases chunks)
    case Nil
    then show ?thesis by simp
  next
    case (Cons c cs)
    with Cons.hyps(2) obtain t' where "enc_ok t' c" by (cases ts) auto
    from chunk_head [OF this] Cons show ?thesis by simp
  qed
  from rx_parse_chunk [OF Cons.hyps(1) this] Cons.IH show ?case by simp
qed

lemma rx_search_begin_later: "rx_search (RBegin # items) False s = False"
  by (induction s) simp_all

lemma rx_test_begin: "rx_test (RBegin # items) s = rx_match items True s"
  by (cases s) (simp_all add: rx_test_def rx_search_begin_later)

lemma rx_match_tokens:
  "rx_match (map rx_item_of ts @ [REnd]) at_start s = spec_match ts False s"
  by (induction ts False s arbitrary: at_start rule: spec_match.induct) simp_all

theorem like_refines:
  assumes "spec_tokens like = Some ts"
  shows "like_test like s = Some (spec_match ts False s)"
proof -
  from like_tokens_src [OF assms] have p: "like = concat (map tok_text ts)" and ok: "list_all tok_ok ts"
    by simp_all
  have r3: "replace_wild (CHR ''_'') (replaceIfNotPrecededBy [CHR 0x5C] ''.'')
              (replace_wild (CHR ''%'') (replaceIfNotPrecededBy [CHR 0x5C] ''.*?'')
                 (escape_meta like)) = concat (map enc3 ts)"
    using ok by (simp add: p escape_meta_tokens percent_tokens underscore_tokens)
  from replace_first_tokens [OF enc3_ok [OF ok], of "CHR ''%''"] obtain chunks4
    where c4: "list_all2 enc_ok ts chunks4"
      and r4: "replace_first [CHR 0x5C, CHR ''%''] ''%'' (concat (map enc3 ts)) = concat chunks4"
    by auto
  from replace_first_tokens [OF c4, of "CHR ''_''"] obtain chunks5
    where c5: "list_all2 enc_ok ts chunks5"
      and r5: "replace_first [CHR 0x5C, CHR ''_''] ''_'' (concat chunks4) = concat chunks5"
    by auto
  have "like2RegExp_source like = ''^'' @ concat chunks5 @ ''$''"
    by (simp add: like2RegExp_source_def Let_def r3 r4 r5)
  then have "like2RegExp like = Some (RBegin # map rx_item_of ts @ [REnd])"
    using rx_parse_tokens [OF c5] by (simp add: like2RegExp_def)
  then show ?thesis
    by (simp add: like_test_def rx_test_begin rx_match_tokens)
qed

lemma tok_match_no_terminator:
  "\<forall>c \<in> set s. \<not> line_terminator c \<Longrightarrow> spec_match ts False s = spec_match ts True s"
  by (induction ts False s rule: spec_match.induct) auto


lemma tok_match_literal: "spec_match (map LChar cs) any s = (s = cs)"
proof (induction cs arbitrary: s)
  case Nil
  then show ?case by simp
next
  case (Cons c cs)
  then show ?case by (cases s) auto
qed

text \<open>
  Claim C7, as the code has it. For a pattern that \<open>spec_tokens\<close> reads, the compiled
  expression accepts a value exactly when the whole value matches the tokens, where an
  unescaped \<open>%\<close> takes zero or more characters other than line terminators, an unescaped
  \<open>_\<close> exactly one such character, and an escaped \<open>%\<close> or \<open>_\<close>, like every other
  character, itself. On a value without line terminators that is the match of the
  specification. The pattern \<open>a%b_\<close> accepts \<open>aXXXbY\<close> and rejects \<open>ab\<close>, and the pattern
  \<open>100\%\<close> accepts the value \<open>100%\<close> and no other.
\<close>

theorem like2RegExp_refines:
  assumes "spec_tokens like = Some ts"
  shows "like_test like s = Some (spec_match ts False s)
       \<and> ((\<forall>c \<in> set s. \<not> line_terminator c) \<longrightarrow> like_test like s = Some (spec_match ts True s))
       \<and> like_test ''a%b_'' ''aXXXbY'' = Some True
       \<and> like_test ''a%b_'' ''ab'' = Some False
       \<and> like_test [CHR ''1'', CHR ''0'', CHR ''0'', CHR 0x5C, CHR ''%''] v = Some (v = ''100%'')"
proof (intro conjI impI)
  show r: "like_test like s = Some (spec_match ts False s)"
    using assms by (rule like_refines)
  assume "\<forall>c \<in> set s. \<not> line_terminator c"
  with r show "like_test like s = Some (spec_match ts True s)"
    by (simp add: tok_match_no_terminator)
next
  have "spec_tokens ''a%b_'' = Some [LChar (CHR ''a''), LAny, LChar (CHR ''b''), LOne]"
    by (simp add: ordinary_def)
  from like_refines [OF this]
  show "like_test ''a%b_'' ''aXXXbY'' = Some True" and "like_test ''a%b_'' ''ab'' = Some False"
    by (simp_all add: line_terminator_def)
next
  have "spec_tokens [CHR ''1'', CHR ''0'', CHR ''0'', CHR 0x5C, CHR ''%'']
          = Some (map LChar ''100%'')"
    by (simp add: ordinary_def)
  from like_refines [OF this, of v]
  show "like_test [CHR ''1'', CHR ''0'', CHR ''0'', CHR 0x5C, CHR ''%''] v = Some (v = ''100%'')"
    by (simp only: tok_match_literal)
qed

theorem like2RegExp_refines_witness:
  "like_test ''x_%'' ''xyz'' = Some True"
proof -
  have h: "spec_tokens ''x_%'' = Some [LChar (CHR ''x''), LOne, LAny]"
    by (simp add: ordinary_def)
  from like2RegExp_refines [OF h, of "''xyz''", THEN conjunct1]
  show ?thesis by (simp add: line_terminator_def)
qed

text \<open>
  Claim C7, as stated, fails on a value with a line terminator: the specification's \<open>%\<close>
  matches the value that is a single line feed, and the compiled expression rejects it,
  since the dot of a regular expression matches no line terminator.
\<close>

theorem like_percent_line_feed:
  "like_test ''%'' [CHR 0x0A] = Some False
   \<and> spec_tokens ''%'' = Some [LAny]
   \<and> spec_match [LAny] True [CHR 0x0A]"
  by (simp add: like_test_def like2RegExp_def like2RegExp_source_def replaceIfNotPrecededBy_def
      rx_test_def line_terminator_def)

end
